theory Spec2Isabelle
  imports Complex_Main
begin

section \<open>Numbers, strings and parsed payloads\<close>

text \<open>
  The detection pipeline of \<^verbatim>\<open>src/services/gemini.ts\<close> (class \<^verbatim>\<open>GeminiLiveClient\<close>) and of
  \<^verbatim>\<open>src/services/forensicTypes.ts\<close> (class \<^verbatim>\<open>ForensicLiveClient\<close>) is embedded as pure
  functions with explicit state passing.

  \<^item> A JavaScript \<^verbatim>\<open>number\<close> is a \<^typ>\<open>real\<close>: arithmetic is exact, and the values
    \<^verbatim>\<open>NaN\<close> and \<^verbatim>\<open>Infinity\<close> are outside the model.
  \<^item> \<^verbatim>\<open>Date.now()\<close> is a parameter \<open>now\<close> (milliseconds, an \<^typ>\<open>int\<close>); one message is
    handled at one clock reading.
  \<^item> A string is a \<^typ>\<open>string\<close>; \<^verbatim>\<open>toLowerCase\<close> folds the ASCII letters.
  \<^item> The object returned by \<^verbatim>\<open>JSON.parse\<close> is a map from field names to JSON values; an
    absent field (\<^verbatim>\<open>undefined\<close>) is \<^const>\<open>None\<close>.
  \<^item> Console logging is dropped.
\<close>

datatype json =
    JNull
  | JBool bool
  | JNum real
  | JStr string
  | JArr "json list"
  | JObj "(string \<times> json) list"

type_synonym payload = "string \<Rightarrow> json option"

text \<open>JavaScript truthiness of a field of the parsed object.\<close>

fun truthy :: "json option \<Rightarrow> bool" where
  "truthy None = False"
| "truthy (Some JNull) = False"
| "truthy (Some (JBool b)) = b"
| "truthy (Some (JNum x)) = (x \<noteq> 0)"
| "truthy (Some (JStr s)) = (s \<noteq> [])"
| "truthy (Some (JArr xs)) = True"
| "truthy (Some (JObj kvs)) = True"

text \<open>The operator \<^verbatim>\<open>a || b\<close>.\<close>

definition js_or :: "json option \<Rightarrow> json option \<Rightarrow> json option" where
  "js_or a b = (if truthy a then a else b)"

fun isArray :: "json option \<Rightarrow> bool" where
  "isArray (Some (JArr xs)) = True"
| "isArray v = False"

definition toLowerChar :: "char \<Rightarrow> char" where
  "toLowerChar c =
     (let n = (of_char c :: nat) in if 65 \<le> n \<and> n \<le> 90 then char_of (n + 32) else c)"

definition toLowerCase :: "string \<Rightarrow> string" where
  "toLowerCase s = map toLowerChar s"

text \<open>\<^verbatim>\<open>Math.round\<close> rounds half up; a template literal prints an integer in decimal.\<close>

definition Math_round :: "real \<Rightarrow> int" where
  "Math_round x = \<lfloor>x + 1 / 2\<rfloor>"

fun digits :: "nat \<Rightarrow> string" where
  "digits n =
     (if n < 10 then [char_of (48 + n)] else digits (n div 10) @ [char_of (48 + n mod 10)])"

definition show_int :: "int \<Rightarrow> string" where
  "show_int i = (if i < 0 then CHR ''-'' # digits (nat (- i)) else digits (nat i))"

section \<open>Configuration and records of \<^verbatim>\<open>gemini.ts\<close>\<close>

definition DEDUP_TIME_WINDOW_MS :: int where
  "DEDUP_TIME_WINDOW_MS = 30000"

definition DEDUP_SPATIAL_TOLERANCE :: real where
  "DEDUP_SPATIAL_TOLERANCE = 0.15"

definition MIN_CONFIDENCE_THRESHOLD :: real where
  "MIN_CONFIDENCE_THRESHOLD = 60"

definition TEMPORAL_THRESHOLD :: nat where
  "TEMPORAL_THRESHOLD = 1"

definition TEMPORAL_WINDOW_MS :: int where
  "TEMPORAL_WINDOW_MS = 3000"

definition IOU_THRESHOLD :: real where
  "IOU_THRESHOLD = 0.25"

definition NMS_IOU_THRESHOLD :: real where
  "NMS_IOU_THRESHOLD = 0.5"

definition NMS_WINDOW_MS :: int where
  "NMS_WINDOW_MS = 5000"

record bbox =
  ymin :: real
  xmin :: real
  ymax :: real
  xmax :: real

text \<open>Interface \<^verbatim>\<open>RecentDetection\<close>.\<close>

record RecentDetection =
  r_defectType :: string
  r_bbox :: "bbox option"
  r_timestamp :: int

text \<open>Interface \<^verbatim>\<open>TemporalDetection\<close>.\<close>

record TemporalDetection =
  t_defectType :: string
  t_bbox :: bbox
  t_confidence :: real
  t_frameCount :: nat
  t_firstSeen :: int
  t_lastSeen :: int

text \<open>Interface \<^verbatim>\<open>ConfirmedDetection\<close>.\<close>

record ConfirmedDetection =
  c_defectType :: string
  c_bbox :: bbox
  c_confidence :: real
  c_timestamp :: int

text \<open>
  The three rolling collections of \<^verbatim>\<open>GeminiLiveClient\<close>. The \<^verbatim>\<open>Map\<close> is a list of
  key/value pairs in insertion order, with at most one pair per key.
\<close>

record client =
  recentDetections :: "RecentDetection list"
  temporalBuffer :: "(string \<times> TemporalDetection) list"
  confirmedDetections :: "ConfirmedDetection list"

text \<open>\<^verbatim>\<open>Map.prototype.set\<close>: an existing key keeps its place, a new key goes last.\<close>

fun map_set :: "'k \<Rightarrow> 'v \<Rightarrow> ('k \<times> 'v) list \<Rightarrow> ('k \<times> 'v) list" where
  "map_set k v [] = [(k, v)]"
| "map_set k v ((k', v') # m) = (if k' = k then (k, v) # m else (k', v') # map_set k v m)"

section \<open>Geometry\<close>

definition calculateIoU :: "bbox \<Rightarrow> bbox \<Rightarrow> real" where
  "calculateIoU box1 box2 =
     (let xA = max (xmin box1) (xmin box2);
          yA = max (ymin box1) (ymin box2);
          xB = min (xmax box1) (xmax box2);
          yB = min (ymax box1) (ymax box2);
          intersection = max 0 (xB - xA) * max 0 (yB - yA);
          box1Area = (xmax box1 - xmin box1) * (ymax box1 - ymin box1);
          box2Area = (xmax box2 - xmin box2) * (ymax box2 - ymin box2);
          unionArea = box1Area + box2Area - intersection
      in if unionArea > 0 then intersection / unionArea else 0)"

definition generateSpatialKey :: "string \<Rightarrow> bbox \<Rightarrow> string" where
  "generateSpatialKey defectType b =
     (let centerX = Math_round ((xmin b + xmax b) / 2 * 10);
          centerY = Math_round ((ymin b + ymax b) / 2 * 10)
      in toLowerCase defectType @ ''_'' @ show_int centerX @ ''_'' @ show_int centerY)"

section \<open>Temporal consistency\<close>

text \<open>The first loop of \<^verbatim>\<open>checkTemporalConsistency\<close>: delete the stale entries.\<close>

definition temporal_clean ::
  "int \<Rightarrow> (string \<times> TemporalDetection) list \<Rightarrow> (string \<times> TemporalDetection) list" where
  "temporal_clean now buf = filter (\<lambda>(key, detection). \<not> (now - t_lastSeen detection > TEMPORAL_WINDOW_MS)) buf"

text \<open>
  The second loop: the first entry, in iteration order, of the same type and with enough
  overlap is updated in place and decides the result; \<^const>\<open>None\<close> when the loop ends
  without a match. The threshold \<open>th\<close> stands for the constant \<^verbatim>\<open>TEMPORAL_THRESHOLD\<close>.
\<close>

fun temporal_match ::
  "nat \<Rightarrow> int \<Rightarrow> string \<Rightarrow> bbox \<Rightarrow> real \<Rightarrow> (string \<times> TemporalDetection) list
     \<Rightarrow> ((bool \<times> nat) \<times> (string \<times> TemporalDetection) list) option" where
  "temporal_match th now defectType b confidence [] = None"
| "temporal_match th now defectType b confidence ((existingKey, detection) # rest) =
     (if toLowerCase (t_defectType detection) = toLowerCase defectType
        \<and> calculateIoU (t_bbox detection) b \<ge> IOU_THRESHOLD
      then
        (let detection' = detection
               \<lparr> t_frameCount := t_frameCount detection + 1,
                 t_lastSeen := now,
                 t_confidence := max (t_confidence detection) confidence \<rparr>
         in Some ((t_frameCount detection' \<ge> th, t_frameCount detection'),
                  (existingKey, detection') # rest))
      else
        (case temporal_match th now defectType b confidence rest of
           None \<Rightarrow> None
         | Some (res, rest') \<Rightarrow> Some (res, (existingKey, detection) # rest')))"

definition checkTemporalConsistency_at ::
  "nat \<Rightarrow> int \<Rightarrow> client \<Rightarrow> string \<Rightarrow> bbox \<Rightarrow> real \<Rightarrow> (bool \<times> nat) \<times> client" where
  "checkTemporalConsistency_at th now st defectType b confidence =
     (let buf = temporal_clean now (temporalBuffer st) in
      case temporal_match th now defectType b confidence buf of
        Some (res, buf') \<Rightarrow> (res, st\<lparr>temporalBuffer := buf'\<rparr>)
      | None \<Rightarrow>
          (let key = generateSpatialKey defectType b;
               fresh = \<lparr> t_defectType = defectType, t_bbox = b, t_confidence = confidence,
                         t_frameCount = 1, t_firstSeen = now, t_lastSeen = now \<rparr>
           in ((th \<le> 1, 1), st\<lparr>temporalBuffer := map_set key fresh buf\<rparr>)))"

definition checkTemporalConsistency ::
  "int \<Rightarrow> client \<Rightarrow> string \<Rightarrow> bbox \<Rightarrow> real \<Rightarrow> (bool \<times> nat) \<times> client" where
  "checkTemporalConsistency = checkTemporalConsistency_at TEMPORAL_THRESHOLD"

section \<open>Non-maximum suppression\<close>

fun nms_overlap :: "bbox \<Rightarrow> real \<Rightarrow> ConfirmedDetection list \<Rightarrow> bool" where
  "nms_overlap b confidence [] = False"
| "nms_overlap b confidence (confirmed # rest) =
     (if calculateIoU (c_bbox confirmed) b \<ge> NMS_IOU_THRESHOLD
      then (if confidence \<le> c_confidence confirmed then True
            else nms_overlap b confidence rest)
      else nms_overlap b confidence rest)"

definition shouldSuppressNMS ::
  "int \<Rightarrow> client \<Rightarrow> string \<Rightarrow> bbox \<Rightarrow> real \<Rightarrow> bool \<times> client" where
  "shouldSuppressNMS now st defectType b confidence =
     (let kept = filter (\<lambda>d. now - c_timestamp d < NMS_WINDOW_MS) (confirmedDetections st)
      in (nms_overlap b confidence kept, st\<lparr>confirmedDetections := kept\<rparr>))"

definition trackConfirmedDetection ::
  "int \<Rightarrow> client \<Rightarrow> string \<Rightarrow> bbox \<Rightarrow> real \<Rightarrow> client" where
  "trackConfirmedDetection now st defectType b confidence =
     st\<lparr>confirmedDetections :=
          filter (\<lambda>d. if calculateIoU (c_bbox d) b \<ge> NMS_IOU_THRESHOLD \<and> c_confidence d < confidence
                      then False else True)
            (confirmedDetections st)
          @ [\<lparr> c_defectType = defectType, c_bbox = b, c_confidence = confidence,
               c_timestamp = now \<rparr>]\<rparr>"

section \<open>Deduplication\<close>

definition center_distance :: "bbox \<Rightarrow> bbox \<Rightarrow> real" where
  "center_distance b rb =
     (let centerX1 = (xmin b + xmax b) / 2;
          centerY1 = (ymin b + ymax b) / 2;
          centerX2 = (xmin rb + xmax rb) / 2;
          centerY2 = (ymin rb + ymax rb) / 2
      in sqrt ((centerX1 - centerX2)\<^sup>2 + (centerY1 - centerY2)\<^sup>2))"

fun dup_scan :: "string \<Rightarrow> bbox option \<Rightarrow> RecentDetection list \<Rightarrow> bool" where
  "dup_scan defectType b [] = False"
| "dup_scan defectType b (recent # rest) =
     (if toLowerCase (r_defectType recent) \<noteq> toLowerCase defectType
      then dup_scan defectType b rest
      else (case (b, r_bbox recent) of
              (Some bb, Some rb) \<Rightarrow>
                (if center_distance bb rb < DEDUP_SPATIAL_TOLERANCE then True
                 else dup_scan defectType b rest)
            | _ \<Rightarrow> True))"

definition isDuplicate :: "int \<Rightarrow> client \<Rightarrow> string \<Rightarrow> bbox option \<Rightarrow> bool \<times> client" where
  "isDuplicate now st defectType b =
     (let kept = filter (\<lambda>d. now - r_timestamp d < DEDUP_TIME_WINDOW_MS) (recentDetections st)
      in (dup_scan defectType b kept, st\<lparr>recentDetections := kept\<rparr>))"

definition trackDetection :: "int \<Rightarrow> client \<Rightarrow> string \<Rightarrow> bbox option \<Rightarrow> client" where
  "trackDetection now st defectType b =
     st\<lparr>recentDetections := recentDetections st
          @ [\<lparr> r_defectType = defectType, r_bbox = b, r_timestamp = now \<rparr>]\<rparr>"

section \<open>Validation of one payload (\<^verbatim>\<open>parseDefectResponse\<close>)\<close>

text \<open>Lines 610 to 619: the confidence of the payload, defaulted and clamped.\<close>

definition parse_confidence :: "payload \<Rightarrow> real" where
  "parse_confidence data =
     (let given = (case data ''confidence'' of Some (JNum c) \<Rightarrow> Some c | _ \<Rightarrow> None);
          confidence = (case given of None \<Rightarrow> 70 | Some c \<Rightarrow> c)
      in max 0 (min 100 confidence))"

text \<open>
  Lines 642 to 677: scale detection on the largest coordinate, repair of inverted pairs,
  clamping and the sanity check; \<^const>\<open>None\<close> is the discarded box (\<^verbatim>\<open>undefined\<close>).
\<close>

definition normalizeBox :: "real \<Rightarrow> real \<Rightarrow> real \<Rightarrow> real \<Rightarrow> bbox option" where
  "normalizeBox ymin0 xmin0 ymax0 xmax0 =
     (let maxCoord = max (max (max ymin0 xmin0) ymax0) xmax0;
          (ymin1, xmin1, ymax1, xmax1) =
            (if maxCoord > 100
             then (ymin0 / 1000, xmin0 / 1000, ymax0 / 1000, xmax0 / 1000)
             else if maxCoord > 1
             then (ymin0 / 100, xmin0 / 100, ymax0 / 100, xmax0 / 100)
             else (ymin0, xmin0, ymax0, xmax0));
          (ymin2, ymax2) = (if ymin1 > ymax1 then (ymax1, ymin1) else (ymin1, ymax1));
          (xmin2, xmax2) = (if xmin1 > xmax1 then (xmax1, xmin1) else (xmin1, xmax1));
          boundingBox = \<lparr> ymin = max 0 (min 1 ymin2), xmin = max 0 (min 1 xmin2),
                          ymax = max 0 (min 1 ymax2), xmax = max 0 (min 1 xmax2) \<rparr>
      in if ymax boundingBox \<le> ymin boundingBox \<or> xmax boundingBox \<le> xmin boundingBox
         then None else Some boundingBox)"

text \<open>Lines 680 to 705: the size and aspect-ratio filter on a box that passed the sanity check.\<close>

definition validateBox :: "bbox \<Rightarrow> bbox option" where
  "validateBox boundingBox =
     (let boxWidth = xmax boundingBox - xmin boundingBox;
          boxHeight = ymax boundingBox - ymin boundingBox;
          area = boxWidth * boxHeight;
          aspectRatio = max boxWidth boxHeight / min boxWidth boxHeight
      in if area < 0.001 then None
         else if area > 0.70 then None
         else if aspectRatio > 15 then None
         else Some boundingBox)"

text \<open>Lines 628 to 707: the box of the payload, if it has a usable one.\<close>

definition parseBox :: "payload \<Rightarrow> bbox option" where
  "parseBox data =
     (case data ''box_2d'' of
        Some (JArr (JNum ymin0 # JNum xmin0 # JNum ymax0 # JNum xmax0 # others)) \<Rightarrow>
          (case normalizeBox ymin0 xmin0 ymax0 xmax0 of
             None \<Rightarrow> None
           | Some boundingBox \<Rightarrow> validateBox boundingBox)
      | _ \<Rightarrow> None)"

text \<open>
  What happens to one parsed message. \<open>Thrown\<close> is the \<^verbatim>\<open>TypeError\<close> of
  \<^verbatim>\<open>data.box_2d.join\<close> (line 593) on a truthy value that is not an array, swallowed by the
  \<^verbatim>\<open>catch\<close> block; \<open>Detected\<close> is the call of \<^verbatim>\<open>addDefect\<close>, with the type, box and
  confidence of the reported defect.
\<close>

datatype outcome =
    Thrown
  | ClearFrame
  | InvalidType
  | FilteredLowConfidence
  | FilteredDuplicate
  | AwaitingConfirmation nat
  | SuppressedNMS
  | Detected string "bbox option" real

definition parseDefectResponse :: "int \<Rightarrow> client \<Rightarrow> payload \<Rightarrow> outcome \<times> client" where
  "parseDefectResponse now st data =
     (if truthy (data ''box_2d'') \<and> \<not> isArray (data ''box_2d'') then (Thrown, st)
      else if data ''type'' = Some (JStr ''clear'') \<or> \<not> truthy (data ''defectType'')
      then (ClearFrame, st)
      else
        (case js_or (data ''defectType'') (js_or (data ''type'') (Some (JStr ''''))) of
           Some (JStr defectType) \<Rightarrow>
             (if defectType = [] then (InvalidType, st)
              else
                (let confidence = parse_confidence data in
                 if confidence < MIN_CONFIDENCE_THRESHOLD then (FilteredLowConfidence, st)
                 else
                   (let boundingBox = parseBox data;
                        (dup, st1) = isDuplicate now st defectType boundingBox
                    in if dup then (FilteredDuplicate, st1)
                       else
                         (case boundingBox of
                            Some bb \<Rightarrow>
                              (let (temporal, st2) =
                                     checkTemporalConsistency now st1 defectType bb confidence
                               in if \<not> fst temporal then (AwaitingConfirmation (snd temporal), st2)
                                  else
                                    (let (suppress, st3) =
                                           shouldSuppressNMS now st2 defectType bb confidence
                                     in if suppress then (SuppressedNMS, st3)
                                        else
                                          (Detected defectType boundingBox confidence,
                                           trackDetection now
                                             (trackConfirmedDetection now st3 defectType bb confidence)
                                             defectType boundingBox)))
                          | None \<Rightarrow>
                              (Detected defectType None confidence,
                               trackDetection now st1 defectType None)))))
         | _ \<Rightarrow> (InvalidType, st)))"

text \<open>\<^verbatim>\<open>GeminiLiveClient.stop\<close>, on the three collections.\<close>

definition stop :: "client \<Rightarrow> client" where
  "stop st = st\<lparr>recentDetections := [], temporalBuffer := [], confirmedDetections := []\<rparr>"

section \<open>The forensic client (\<^verbatim>\<open>forensicTypes.ts\<close>)\<close>

definition FORENSIC_DEDUP_TIME_WINDOW_MS :: int where
  "FORENSIC_DEDUP_TIME_WINDOW_MS = 45000"

definition FORENSIC_DEDUP_SPATIAL_TOLERANCE :: real where
  "FORENSIC_DEDUP_SPATIAL_TOLERANCE = 0.12"

definition FORENSIC_MIN_CONFIDENCE_THRESHOLD :: real where
  "FORENSIC_MIN_CONFIDENCE_THRESHOLD = 70"

text \<open>Interface \<^verbatim>\<open>RecentForensicDetection\<close>.\<close>

record RecentForensicDetection =
  f_evidenceType :: string
  f_bbox :: "bbox option"
  f_timestamp :: int

text \<open>The fields of \<^verbatim>\<open>ForensicEvidence\<close> that the filter chain decides.\<close>

record ForensicEvidence =
  e_evidenceType :: string
  e_confidence :: real
  e_boundingBox :: "bbox option"

text \<open>
  \<^verbatim>\<open>ForensicLiveClient\<close>: the session (\<^const>\<open>None\<close> is \<^verbatim>\<open>null\<close>) with its evidence list,
  and the only rolling collection this class has.
\<close>

record forensic_client =
  session :: "ForensicEvidence list option"
  f_recentDetections :: "RecentForensicDetection list"

fun forensic_dup_scan :: "string \<Rightarrow> bbox option \<Rightarrow> RecentForensicDetection list \<Rightarrow> bool" where
  "forensic_dup_scan evidenceType b [] = False"
| "forensic_dup_scan evidenceType b (recent # rest) =
     (if toLowerCase (f_evidenceType recent) \<noteq> toLowerCase evidenceType
      then forensic_dup_scan evidenceType b rest
      else (case (b, f_bbox recent) of
              (Some bb, Some rb) \<Rightarrow>
                (if center_distance bb rb < FORENSIC_DEDUP_SPATIAL_TOLERANCE then True
                 else forensic_dup_scan evidenceType b rest)
            | _ \<Rightarrow> True))"

definition forensic_isDuplicate ::
  "int \<Rightarrow> forensic_client \<Rightarrow> string \<Rightarrow> bbox option \<Rightarrow> bool \<times> forensic_client" where
  "forensic_isDuplicate now st evidenceType b =
     (let kept = filter (\<lambda>d. now - f_timestamp d < FORENSIC_DEDUP_TIME_WINDOW_MS)
                   (f_recentDetections st)
      in (forensic_dup_scan evidenceType b kept, st\<lparr>f_recentDetections := kept\<rparr>))"

definition forensic_trackDetection ::
  "int \<Rightarrow> forensic_client \<Rightarrow> string \<Rightarrow> bbox option \<Rightarrow> forensic_client" where
  "forensic_trackDetection now st evidenceType b =
     st\<lparr>f_recentDetections := f_recentDetections st
          @ [\<lparr> f_evidenceType = evidenceType, f_bbox = b, f_timestamp = now \<rparr>]\<rparr>"

definition forensic_confidence :: "payload \<Rightarrow> real" where
  "forensic_confidence data =
     (let confidence = (case data ''confidence'' of Some (JNum c) \<Rightarrow> c | _ \<Rightarrow> 70)
      in max 0 (min 100 confidence))"

text \<open>Lines 488 to 500: the forensic path only clamps the four numbers.\<close>

definition forensic_parseBox :: "payload \<Rightarrow> bbox option" where
  "forensic_parseBox data =
     (case data ''box_2d'' of
        Some (JArr (JNum ymin0 # JNum xmin0 # JNum ymax0 # JNum xmax0 # others)) \<Rightarrow>
          Some \<lparr> ymin = max 0 (min 1 ymin0), xmin = max 0 (min 1 xmin0),
                 ymax = max 0 (min 1 ymax0), xmax = max 0 (min 1 xmax0) \<rparr>
      | _ \<Rightarrow> None)"

datatype forensic_outcome =
    NoSession
  | ForensicFilteredLowConfidence
  | ForensicFilteredDuplicate
  | EvidenceRecorded ForensicEvidence

text \<open>
  \<^verbatim>\<open>handleEvidenceDetection\<close>, up to \<^verbatim>\<open>session.evidence.push\<close>. The label \<open>evidenceType\<close>
  is the value of \<^verbatim>\<open>String(data.evidenceType || 'unknown')\<close>, a conversion of the language
  that is taken as given.
\<close>

definition handleEvidenceDetection ::
  "int \<Rightarrow> forensic_client \<Rightarrow> string \<Rightarrow> payload \<Rightarrow> forensic_outcome \<times> forensic_client" where
  "handleEvidenceDetection now st evidenceType data =
     (case session st of
        None \<Rightarrow> (NoSession, st)
      | Some evidence \<Rightarrow>
          (let confidence = forensic_confidence data in
           if confidence < FORENSIC_MIN_CONFIDENCE_THRESHOLD
           then (ForensicFilteredLowConfidence, st)
           else
             (let boundingBox = forensic_parseBox data;
                  (dup, st1) = forensic_isDuplicate now st evidenceType boundingBox
              in if dup then (ForensicFilteredDuplicate, st1)
                 else
                   (let st2 = forensic_trackDetection now st1 evidenceType boundingBox;
                        item = \<lparr> e_evidenceType = evidenceType, e_confidence = confidence,
                                 e_boundingBox = boundingBox \<rparr>
                    in (EvidenceRecorded item, st2\<lparr>session := Some (evidence @ [item])\<rparr>)))))"

text \<open>\<^verbatim>\<open>ForensicLiveClient.stop\<close>, on its rolling collection.\<close>

definition forensic_stop :: "forensic_client \<Rightarrow> forensic_client" where
  "forensic_stop st = st\<lparr>f_recentDetections := []\<rparr>"

section \<open>Quantities used to state the properties\<close>

text \<open>The locals \<^verbatim>\<open>box1Area\<close>, \<^verbatim>\<open>intersection\<close> and \<^verbatim>\<open>union\<close> of \<^verbatim>\<open>calculateIoU\<close>.\<close>

definition box_area :: "bbox \<Rightarrow> real" where
  "box_area b = (xmax b - xmin b) * (ymax b - ymin b)"

definition intersection_area :: "bbox \<Rightarrow> bbox \<Rightarrow> real" where
  "intersection_area box1 box2 =
     max 0 (min (xmax box1) (xmax box2) - max (xmin box1) (xmin box2))
     * max 0 (min (ymax box1) (ymax box2) - max (ymin box1) (ymin box2))"

definition union_area :: "bbox \<Rightarrow> bbox \<Rightarrow> real" where
  "union_area box1 box2 = box_area box1 + box_area box2 - intersection_area box1 box2"

text \<open>
  The order of calls of lines 727 to 733: \<^verbatim>\<open>shouldSuppressNMS\<close>, and
  \<^verbatim>\<open>trackConfirmedDetection\<close> only when the detection is not suppressed.
\<close>

definition nms_check_then_track :: "int \<Rightarrow> client \<Rightarrow> string \<Rightarrow> bbox \<Rightarrow> real \<Rightarrow> client" where
  "nms_check_then_track now st defectType b confidence =
     (let (suppress, st') = shouldSuppressNMS now st defectType b confidence
      in if suppress then st' else trackConfirmedDetection now st' defectType b confidence)"

text \<open>Concrete inputs for the examples.\<close>

definition empty_client :: client where
  "empty_client = \<lparr> recentDetections = [], temporalBuffer = [], confirmedDetections = [] \<rparr>"

definition box_a :: bbox where
  "box_a = \<lparr> ymin = 0.2, xmin = 0.2, ymax = 0.6, xmax = 0.6 \<rparr>"

definition box_b :: bbox where
  "box_b = \<lparr> ymin = 0.25, xmin = 0.2, ymax = 0.6, xmax = 0.6 \<rparr>"

text \<open>
  The duplicate test in the words of the specification: a record younger than the window,
  of the same type up to case, and either both sides have boxes whose centers are closer
  than the tolerance, or neither side has a box.
\<close>

definition claimed_isDuplicate :: "int \<Rightarrow> client \<Rightarrow> string \<Rightarrow> bbox option \<Rightarrow> bool" where
  "claimed_isDuplicate now st defectType b =
     list_ex
       (\<lambda>r. now - r_timestamp r < DEDUP_TIME_WINDOW_MS
            \<and> toLowerCase (r_defectType r) = toLowerCase defectType
            \<and> (case (b, r_bbox r) of
                 (Some bb, Some rb) \<Rightarrow> center_distance bb rb < DEDUP_SPATIAL_TOLERANCE
               | (None, None) \<Rightarrow> True
               | _ \<Rightarrow> False))
       (recentDetections st)"

definition empty_forensic_client :: forensic_client where
  "empty_forensic_client = \<lparr> session = Some [], f_recentDetections = [] \<rparr>"

text \<open>
  The matching test of the second loop of \<^verbatim>\<open>checkTemporalConsistency\<close>, with the
  threshold written out.
\<close>

definition same_defect :: "string \<Rightarrow> bbox \<Rightarrow> TemporalDetection \<Rightarrow> bool" where
  "same_defect defectType b detection =
     (toLowerCase (t_defectType detection) = toLowerCase defectType
      \<and> calculateIoU (t_bbox detection) b \<ge> 0.25)"

text \<open>The update of a matched candidate, and the candidate of a first sighting.\<close>

definition seen_again :: "int \<Rightarrow> real \<Rightarrow> TemporalDetection \<Rightarrow> TemporalDetection" where
  "seen_again now confidence detection =
     detection\<lparr> t_frameCount := t_frameCount detection + 1, t_lastSeen := now,
                t_confidence := max (t_confidence detection) confidence \<rparr>"

definition first_sighting :: "int \<Rightarrow> string \<Rightarrow> bbox \<Rightarrow> real \<Rightarrow> TemporalDetection" where
  "first_sighting now defectType b confidence =
     \<lparr> t_defectType = defectType, t_bbox = b, t_confidence = confidence, t_frameCount = 1,
       t_firstSeen = now, t_lastSeen = now \<rparr>"

text \<open>The clamp \<^verbatim>\<open>Math.max(0, Math.min(1, v))\<close> and the local \<^verbatim>\<open>aspectRatio\<close>.\<close>

definition clamp01 :: "real \<Rightarrow> real" where
  "clamp01 v = max 0 (min 1 v)"

definition aspect_ratio :: "bbox \<Rightarrow> real" where
  "aspect_ratio b =
     max (xmax b - xmin b) (ymax b - ymin b) / min (xmax b - xmin b) (ymax b - ymin b)"

text \<open>The invariant of a normalized box.\<close>

definition normalized_box :: "bbox \<Rightarrow> bool" where
  "normalized_box b =
     (0 \<le> ymin b \<and> ymin b \<le> 1 \<and> 0 \<le> xmin b \<and> xmin b \<le> 1
      \<and> 0 \<le> ymax b \<and> ymax b \<le> 1 \<and> 0 \<le> xmax b \<and> xmax b \<le> 1
      \<and> ymin b < ymax b \<and> xmin b < xmax b)"

text \<open>A defect payload with the given confidence and box fields.\<close>

definition defect_payload :: "json option \<Rightarrow> json option \<Rightarrow> payload" where
  "defect_payload conf box2d =
     (\<lambda>k. if k = ''type'' then Some (JStr ''defect'')
          else if k = ''defectType'' then Some (JStr ''crack'')
          else if k = ''confidence'' then conf
          else if k = ''box_2d'' then box2d
          else None)"

definition box_array :: "real \<Rightarrow> real \<Rightarrow> real \<Rightarrow> real \<Rightarrow> json option" where
  "box_array a b c d = Some (JArr [JNum a, JNum b, JNum c, JNum d])"

text \<open>An evidence payload with the given confidence and box fields.\<close>

definition evidence_payload :: "json option \<Rightarrow> json option \<Rightarrow> payload" where
  "evidence_payload conf box2d =
     (\<lambda>k. if k = ''type'' then Some (JStr ''evidence'')
          else if k = ''evidenceType'' then Some (JStr ''blood stain'')
          else if k = ''confidence'' then conf
          else if k = ''box_2d'' then box2d
          else None)"

text \<open>The box of the example of the specification, \<^verbatim>\<open>[200,150,450,180]\<close> normalized.\<close>

definition box_crack :: bbox where
  "box_crack = \<lparr> ymin = 0.2, xmin = 0.15, ymax = 0.45, xmax = 0.18 \<rparr>"

definition box_inverted :: bbox where
  "box_inverted = \<lparr> ymin = 0.5, xmin = 0.5, ymax = 0.2, xmax = 0.2 \<rparr>"

section \<open>Intersection over union\<close>

lemma calculateIoU_unfold:
  "calculateIoU A B =
     (if union_area A B > 0 then intersection_area A B / union_area A B else 0)"
  by (simp add: calculateIoU_def union_area_def intersection_area_def box_area_def Let_def)

lemma calculateIoU_commute: "calculateIoU A B = calculateIoU B A"
  by (simp add: calculateIoU_def Let_def max.commute min.commute add.commute)

lemma overlap_le_area:
  fixes a1 a2 b1 b2 c1 c2 d1 d2 :: real
  shows "max 0 (min a2 b2 - max a1 b1) * max 0 (min c2 d2 - max c1 d1)
         \<le> max 0 ((a2 - a1) * (c2 - c1))"
proof (cases "min a2 b2 - max a1 b1 > 0 \<and> min c2 d2 - max c1 d1 > 0")
  case True
  then have p: "0 < min a2 b2 - max a1 b1" "0 < min c2 d2 - max c1 d1" by auto
  have "min a2 b2 - max a1 b1 \<le> a2 - a1" by (simp add: min_def max_def)
  moreover have "min c2 d2 - max c1 d1 \<le> c2 - c1" by (simp add: min_def max_def)
  ultimately have "(min a2 b2 - max a1 b1) * (min c2 d2 - max c1 d1) \<le> (a2 - a1) * (c2 - c1)"
    using p by (intro mult_mono) auto
  with p show ?thesis by (simp add: max_def)
next
  case False
  then have "max 0 (min a2 b2 - max a1 b1) = 0 \<or> max 0 (min c2 d2 - max c1 d1) = 0"
    by (auto simp: max_def)
  then have "max 0 (min a2 b2 - max a1 b1) * max 0 (min c2 d2 - max c1 d1) = 0"
    by auto
  moreover have "(0::real) \<le> max 0 ((a2 - a1) * (c2 - c1))" by simp
  ultimately show ?thesis by linarith
qed

lemma intersection_area_nonneg: "0 \<le> intersection_area A B"
  by (simp add: intersection_area_def)

lemma intersection_area_le_left: "intersection_area A B \<le> max 0 (box_area A)"
  unfolding intersection_area_def box_area_def by (rule overlap_le_area)

lemma intersection_area_le_right: "intersection_area A B \<le> max 0 (box_area B)"
  unfolding intersection_area_def box_area_def
  using overlap_le_area [of "xmax B" "xmax A" "xmin B" "xmin A" "ymax B" "ymax A" "ymin B" "ymin A"]
  by (simp add: min.commute max.commute)

lemma calculateIoU_nonneg: "0 \<le> calculateIoU A B"
  by (simp add: calculateIoU_unfold intersection_area_nonneg)

lemma calculateIoU_le_one: "calculateIoU A B \<le> 1"
proof (cases "union_area A B > 0")
  case True
  have "intersection_area A B \<le> union_area A B"
    using True intersection_area_nonneg [of A B] intersection_area_le_left [of A B]
      intersection_area_le_right [of A B]
    by (auto simp: union_area_def max_def split: if_splits)
  with True show ?thesis by (simp add: calculateIoU_unfold)
next
  case False
  then show ?thesis by (simp add: calculateIoU_unfold)
qed

lemma calculateIoU_self:
  assumes "xmin A \<le> xmax A" and "ymin A \<le> ymax A" and "0 < box_area A"
  shows "calculateIoU A A = 1"
proof -
  from assms have "xmin A < xmax A \<and> ymin A < ymax A"
    by (auto simp: box_area_def zero_less_mult_iff)
  then show ?thesis by (simp add: calculateIoU_def Let_def max_def)
qed

text \<open>
  C8. \<^const>\<open>calculateIoU\<close> is symmetric and takes its values in the unit interval, on all
  pairs of boxes (any four numbers each). A box whose corners are in order and whose area
  is positive has overlap 1 with itself. When the union area is not positive the result
  is 0.
\<close>

theorem calculateIoU_symmetric_bounded:
  "calculateIoU A B = calculateIoU B A
   \<and> 0 \<le> calculateIoU A B \<and> calculateIoU A B \<le> 1
   \<and> (xmin A \<le> xmax A \<and> ymin A \<le> ymax A \<and> 0 < box_area A \<longrightarrow> calculateIoU A A = 1)
   \<and> (union_area A B \<le> 0 \<longrightarrow> calculateIoU A B = 0)"
  using calculateIoU_commute [of A B] calculateIoU_nonneg [of A B] calculateIoU_le_one [of A B]
    calculateIoU_self [of A]
  by (simp add: calculateIoU_unfold)

theorem calculateIoU_symmetric_bounded_witness:
  "(let A = \<lparr> ymin = 0.2, xmin = 0.15, ymax = 0.45, xmax = 0.18 \<rparr>;
        Z = \<lparr> ymin = 0.3, xmin = 0.3, ymax = 0.3, xmax = 0.3 \<rparr>
    in xmin A \<le> xmax A \<and> ymin A \<le> ymax A \<and> 0 < box_area A \<and> calculateIoU A A = 1
       \<and> union_area Z Z \<le> 0 \<and> calculateIoU Z Z = 0)"
  using calculateIoU_symmetric_bounded
          [of "\<lparr> ymin = 0.2, xmin = 0.15, ymax = 0.45, xmax = 0.18 \<rparr>"
              "\<lparr> ymin = 0.2, xmin = 0.15, ymax = 0.45, xmax = 0.18 \<rparr>"]
        calculateIoU_symmetric_bounded
          [of "\<lparr> ymin = 0.3, xmin = 0.3, ymax = 0.3, xmax = 0.3 \<rparr>"
              "\<lparr> ymin = 0.3, xmin = 0.3, ymax = 0.3, xmax = 0.3 \<rparr>"]
  by (simp add: box_area_def union_area_def intersection_area_def)

section \<open>Non-maximum suppression: check and track\<close>

lemma nms_overlap_iff:
  "nms_overlap b c ds \<longleftrightarrow>
     (\<exists>d\<in>set ds. calculateIoU (c_bbox d) b \<ge> 0.5 \<and> c \<le> c_confidence d)"
  by (induction ds) (auto simp: NMS_IOU_THRESHOLD_def)

lemma shouldSuppressNMS_result:
  "fst (shouldSuppressNMS now st ty b c) \<longleftrightarrow>
     (\<exists>d\<in>set (confirmedDetections st).
        now - c_timestamp d < 5000 \<and> calculateIoU (c_bbox d) b \<ge> 0.5 \<and> c \<le> c_confidence d)"
  by (auto simp: shouldSuppressNMS_def Let_def nms_overlap_iff NMS_WINDOW_MS_def)

lemma shouldSuppressNMS_state:
  "snd (shouldSuppressNMS now st ty b c) =
     st\<lparr>confirmedDetections := filter (\<lambda>d. now - c_timestamp d < 5000) (confirmedDetections st)\<rparr>"
  by (simp add: shouldSuppressNMS_def Let_def NMS_WINDOW_MS_def)

lemma trackConfirmedDetection_state:
  "trackConfirmedDetection now st ty b c =
     st\<lparr>confirmedDetections :=
          filter (\<lambda>d. \<not> (calculateIoU (c_bbox d) b \<ge> 0.5 \<and> c_confidence d < c))
            (confirmedDetections st)
          @ [\<lparr> c_defectType = ty, c_bbox = b, c_confidence = c, c_timestamp = now \<rparr>]\<rparr>"
  by (simp add: trackConfirmedDetection_def NMS_IOU_THRESHOLD_def)

lemma nms_low_then_high:
  assumes "confirmedDetections st = []" "calculateIoU b1 b2 \<ge> 0.5" "t2 - t1 < 5000"
  shows "confirmedDetections
           (nms_check_then_track t2 (nms_check_then_track t1 st ty b1 60) ty b2 90)
         = [\<lparr> c_defectType = ty, c_bbox = b2, c_confidence = 90, c_timestamp = t2 \<rparr>]"
  using assms
  by (simp add: nms_check_then_track_def shouldSuppressNMS_def trackConfirmedDetection_def
      Let_def NMS_IOU_THRESHOLD_def NMS_WINDOW_MS_def)

lemma nms_high_then_low:
  assumes "confirmedDetections st = []" "calculateIoU b1 b2 \<ge> 0.5" "t2 - t1 < 5000"
  shows "confirmedDetections
           (nms_check_then_track t2 (nms_check_then_track t1 st ty b1 90) ty b2 60)
         = [\<lparr> c_defectType = ty, c_bbox = b1, c_confidence = 90, c_timestamp = t1 \<rparr>]"
  using assms
  by (simp add: nms_check_then_track_def shouldSuppressNMS_def trackConfirmedDetection_def
      Let_def NMS_IOU_THRESHOLD_def NMS_WINDOW_MS_def)

lemma calculateIoU_box_a_box_b: "calculateIoU box_a box_b = 7 / 8"
  by (simp add: calculateIoU_def box_a_def box_b_def Let_def)

text \<open>
  C4. The suppression check is true exactly when a record younger than 5000 ms overlaps
  the new box with IoU at least 0.5 and the new confidence is not above the record's; it
  leaves the records younger than 5000 ms in the state. Tracking removes the records that
  overlap the new box with IoU at least 0.5 and have strictly lower confidence, and
  appends the new record. Starting with no records, two boxes with IoU at least 0.5 and
  confidences 60 and 90, checked and tracked in either order less than 5000 ms apart,
  leave one record, the one of confidence 90.
\<close>

theorem nms_suppress_and_track:
  "(fst (shouldSuppressNMS now st ty b c) \<longleftrightarrow>
     (\<exists>d\<in>set (confirmedDetections st).
        now - c_timestamp d < 5000 \<and> calculateIoU (c_bbox d) b \<ge> 0.5 \<and> c \<le> c_confidence d))
   \<and> snd (shouldSuppressNMS now st ty b c) =
       st\<lparr>confirmedDetections := filter (\<lambda>d. now - c_timestamp d < 5000) (confirmedDetections st)\<rparr>
   \<and> trackConfirmedDetection now st ty b c =
       st\<lparr>confirmedDetections :=
            filter (\<lambda>d. \<not> (calculateIoU (c_bbox d) b \<ge> 0.5 \<and> c_confidence d < c))
              (confirmedDetections st)
            @ [\<lparr> c_defectType = ty, c_bbox = b, c_confidence = c, c_timestamp = now \<rparr>]\<rparr>
   \<and> (confirmedDetections st = [] \<and> calculateIoU b b2 \<ge> 0.5 \<and> t2 - now < 5000 \<longrightarrow>
        confirmedDetections
          (nms_check_then_track t2 (nms_check_then_track now st ty b 60) ty b2 90)
          = [\<lparr> c_defectType = ty, c_bbox = b2, c_confidence = 90, c_timestamp = t2 \<rparr>]
        \<and> confirmedDetections
          (nms_check_then_track t2 (nms_check_then_track now st ty b 90) ty b2 60)
          = [\<lparr> c_defectType = ty, c_bbox = b, c_confidence = 90, c_timestamp = now \<rparr>])"
  using shouldSuppressNMS_result [of now st ty b c] shouldSuppressNMS_state [of now st ty b c]
    trackConfirmedDetection_state [of now st ty b c]
    nms_low_then_high [of st b b2 t2 now ty] nms_high_then_low [of st b b2 t2 now ty]
  by blast

theorem nms_suppress_and_track_witness:
  "confirmedDetections empty_client = [] \<and> calculateIoU box_a box_b \<ge> 0.5
   \<and> (1250::int) - 1000 < 5000
   \<and> confirmedDetections
        (nms_check_then_track 1250
           (nms_check_then_track 1000 empty_client ''crack'' box_a 60) ''crack'' box_b 90)
      = [\<lparr> c_defectType = ''crack'', c_bbox = box_b, c_confidence = 90, c_timestamp = 1250 \<rparr>]
   \<and> confirmedDetections
        (nms_check_then_track 1250
           (nms_check_then_track 1000 empty_client ''crack'' box_a 90) ''crack'' box_b 60)
      = [\<lparr> c_defectType = ''crack'', c_bbox = box_a, c_confidence = 90, c_timestamp = 1000 \<rparr>]"
  using nms_suppress_and_track [of 1000 empty_client "''crack''" box_a 60 box_b 1250]
    calculateIoU_box_a_box_b
  by (simp add: empty_client_def)

text \<open>
  C10. The type label plays no part in non-maximum suppression: the check gives the same
  answer and the same state for any two labels, and tracking keeps (hence removes) the
  same earlier records for any two labels; the label only fills the field of the
  appended record. The other two collections are untouched.
\<close>

theorem nms_type_agnostic:
  "shouldSuppressNMS now st t1 b c = shouldSuppressNMS now st t2 b c
   \<and> butlast (confirmedDetections (trackConfirmedDetection now st t1 b c))
       = butlast (confirmedDetections (trackConfirmedDetection now st t2 b c))
   \<and> last (confirmedDetections (trackConfirmedDetection now st t1 b c))
       = \<lparr> c_defectType = t1, c_bbox = b, c_confidence = c, c_timestamp = now \<rparr>
   \<and> recentDetections (trackConfirmedDetection now st t1 b c) = recentDetections st
   \<and> temporalBuffer (trackConfirmedDetection now st t1 b c) = temporalBuffer st"
  by (simp add: shouldSuppressNMS_def trackConfirmedDetection_def Let_def)

text \<open>
  A record of type crack suppresses an overlapping water stain of lower confidence, and
  is removed by an overlapping water stain of higher confidence.
\<close>

theorem nms_type_agnostic_witness:
  "fst (shouldSuppressNMS 1250
          (trackConfirmedDetection 1000 empty_client ''crack'' box_a 90)
          ''water stain'' box_b 60)
   \<and> butlast (confirmedDetections
        (trackConfirmedDetection 1250
           (trackConfirmedDetection 1000 empty_client ''crack'' box_a 90)
           ''water stain'' box_b 95)) = []"
proof -
  let ?st = "trackConfirmedDetection 1000 empty_client ''crack'' box_a 90"
  have same: "fst (shouldSuppressNMS 1250 ?st ''crack'' box_b 60)"
    using calculateIoU_box_a_box_b
    by (simp add: shouldSuppressNMS_def trackConfirmedDetection_def empty_client_def Let_def
        NMS_IOU_THRESHOLD_def NMS_WINDOW_MS_def)
  have evict: "butlast (confirmedDetections (trackConfirmedDetection 1250 ?st ''crack'' box_b 95)) = []"
    using calculateIoU_box_a_box_b
    by (simp add: trackConfirmedDetection_def empty_client_def NMS_IOU_THRESHOLD_def)
  from same evict
    nms_type_agnostic [of 1250 ?st "''water stain''" box_b 60 "''crack''"]
    nms_type_agnostic [of 1250 ?st "''water stain''" box_b 95 "''crack''"]
  show ?thesis by simp
qed

section \<open>Deduplication\<close>

lemma center_distance_self: "center_distance b b = 0"
  by (simp add: center_distance_def)

lemma dup_scan_iff:
  "dup_scan ty b rs \<longleftrightarrow>
     (\<exists>r\<in>set rs. toLowerCase (r_defectType r) = toLowerCase ty
        \<and> (case b of
             None \<Rightarrow> True
           | Some bb \<Rightarrow> (case r_bbox r of
                          None \<Rightarrow> True
                        | Some rb \<Rightarrow> center_distance bb rb < 0.15)))"
proof (induction rs)
  case Nil
  show ?case by simp
next
  case (Cons a rs)
  show ?case
  proof (cases "toLowerCase (r_defectType a) = toLowerCase ty")
    case False
    then show ?thesis using Cons.IH by simp
  next
    case same: True
    show ?thesis
    proof (cases b)
      case None
      with same show ?thesis by simp
    next
      case (Some bb)
      show ?thesis
      proof (cases "r_bbox a")
        case None
        with same Some show ?thesis by simp
      next
        case inner: (Some rb)
        show ?thesis
        proof (cases "center_distance bb rb < 0.15")
          case True
          with same Some inner show ?thesis by (simp add: DEDUP_SPATIAL_TOLERANCE_def)
        next
          case False
          with same Some inner have "dup_scan ty b (a # rs) = dup_scan ty b rs"
            by (simp add: DEDUP_SPATIAL_TOLERANCE_def)
          moreover from False same Some inner
          have "\<not> (case b of None \<Rightarrow> True
                   | Some bb \<Rightarrow> (case r_bbox a of None \<Rightarrow> True
                                | Some rb \<Rightarrow> center_distance bb rb < 0.15))"
            by simp
          ultimately show ?thesis using Cons.IH by simp
        qed
      qed
    qed
  qed
qed

lemma forensic_dup_scan_iff:
  "forensic_dup_scan ty b rs \<longleftrightarrow>
     (\<exists>r\<in>set rs. toLowerCase (f_evidenceType r) = toLowerCase ty
        \<and> (case b of
             None \<Rightarrow> True
           | Some bb \<Rightarrow> (case f_bbox r of
                          None \<Rightarrow> True
                        | Some rb \<Rightarrow> center_distance bb rb < 0.12)))"
proof (induction rs)
  case Nil
  show ?case by simp
next
  case (Cons a rs)
  show ?case
  proof (cases "toLowerCase (f_evidenceType a) = toLowerCase ty")
    case False
    then show ?thesis using Cons.IH by simp
  next
    case same: True
    show ?thesis
    proof (cases b)
      case None
      with same show ?thesis by simp
    next
      case (Some bb)
      show ?thesis
      proof (cases "f_bbox a")
        case None
        with same Some show ?thesis by simp
      next
        case inner: (Some rb)
        show ?thesis
        proof (cases "center_distance bb rb < 0.12")
          case True
          with same Some inner show ?thesis by (simp add: FORENSIC_DEDUP_SPATIAL_TOLERANCE_def)
        next
          case False
          with same Some inner have "forensic_dup_scan ty b (a # rs) = forensic_dup_scan ty b rs"
            by (simp add: FORENSIC_DEDUP_SPATIAL_TOLERANCE_def)
          moreover from False same Some inner
          have "\<not> (case b of None \<Rightarrow> True
                   | Some bb \<Rightarrow> (case f_bbox a of None \<Rightarrow> True
                                | Some rb \<Rightarrow> center_distance bb rb < 0.12))"
            by simp
          ultimately show ?thesis using Cons.IH by simp
        qed
      qed
    qed
  qed
qed

lemma isDuplicate_result:
  "fst (isDuplicate now st ty b) \<longleftrightarrow>
     (\<exists>r\<in>set (recentDetections st).
        now - r_timestamp r < 30000
        \<and> toLowerCase (r_defectType r) = toLowerCase ty
        \<and> (case b of
             None \<Rightarrow> True
           | Some bb \<Rightarrow> (case r_bbox r of
                          None \<Rightarrow> True
                        | Some rb \<Rightarrow> center_distance bb rb < 0.15)))"
  by (auto simp: isDuplicate_def Let_def dup_scan_iff DEDUP_TIME_WINDOW_MS_def)

lemma forensic_isDuplicate_result:
  "fst (forensic_isDuplicate now fs ty b) \<longleftrightarrow>
     (\<exists>r\<in>set (f_recentDetections fs).
        now - f_timestamp r < 45000
        \<and> toLowerCase (f_evidenceType r) = toLowerCase ty
        \<and> (case b of
             None \<Rightarrow> True
           | Some bb \<Rightarrow> (case f_bbox r of
                          None \<Rightarrow> True
                        | Some rb \<Rightarrow> center_distance bb rb < 0.12)))"
  by (auto simp: forensic_isDuplicate_def Let_def forensic_dup_scan_iff
      FORENSIC_DEDUP_TIME_WINDOW_MS_def)

lemma isDuplicate_window:
  assumes "recentDetections st = []"
  shows "\<not> fst (isDuplicate (t + 30000 + 1) (trackDetection t st ty b) ty b)"
    and "fst (isDuplicate (t + 30000 - 1) (trackDetection t st ty b) ty b)"
  using assms
  by (auto simp: isDuplicate_result trackDetection_def center_distance_self split: option.splits)

lemma forensic_isDuplicate_window:
  assumes "f_recentDetections fs = []"
  shows "\<not> fst (forensic_isDuplicate (t + 45000 + 1) (forensic_trackDetection t fs ty b) ty b)"
    and "fst (forensic_isDuplicate (t + 45000 - 1) (forensic_trackDetection t fs ty b) ty b)"
  using assms
  by (auto simp: forensic_isDuplicate_result forensic_trackDetection_def center_distance_self
      split: option.splits)

text \<open>
  C2, as the specification states it, fails: a boxed crack is a duplicate of a recent
  crack that was recorded without a box, although neither alternative of the claim holds.
\<close>

theorem isDuplicate_counterexample:
  "fst (isDuplicate 1000 (trackDetection 0 empty_client ''crack'' None) ''crack'' (Some box_a))
   \<and> \<not> claimed_isDuplicate 1000 (trackDetection 0 empty_client ''crack'' None) ''crack''
         (Some box_a)"
  by (simp add: isDuplicate_def claimed_isDuplicate_def trackDetection_def empty_client_def
      Let_def DEDUP_TIME_WINDOW_MS_def)

text \<open>
  C2, amended. In both profiles the check is true exactly when a record younger than the
  window (30000 ms, forensic 45000 ms) has the same type up to case and either the
  candidate or the record has no box, or both have boxes and the distance of their
  centers is below the tolerance (0.15, forensic 0.12). A detection recorded at \<open>t\<close> into
  an empty list and reported again is a duplicate 1 ms before the window ends and is not
  one 1 ms after.
\<close>

theorem isDuplicate_characterisation:
  "(fst (isDuplicate now st ty b) \<longleftrightarrow>
     (\<exists>r\<in>set (recentDetections st).
        now - r_timestamp r < 30000
        \<and> toLowerCase (r_defectType r) = toLowerCase ty
        \<and> (case b of
             None \<Rightarrow> True
           | Some bb \<Rightarrow> (case r_bbox r of
                          None \<Rightarrow> True
                        | Some rb \<Rightarrow> center_distance bb rb < 0.15))))
   \<and> (fst (forensic_isDuplicate now fs ty b) \<longleftrightarrow>
     (\<exists>r\<in>set (f_recentDetections fs).
        now - f_timestamp r < 45000
        \<and> toLowerCase (f_evidenceType r) = toLowerCase ty
        \<and> (case b of
             None \<Rightarrow> True
           | Some bb \<Rightarrow> (case f_bbox r of
                          None \<Rightarrow> True
                        | Some rb \<Rightarrow> center_distance bb rb < 0.12))))
   \<and> (recentDetections st = [] \<longrightarrow>
        \<not> fst (isDuplicate (now + 30000 + 1) (trackDetection now st ty b) ty b)
        \<and> fst (isDuplicate (now + 30000 - 1) (trackDetection now st ty b) ty b))
   \<and> (f_recentDetections fs = [] \<longrightarrow>
        \<not> fst (forensic_isDuplicate (now + 45000 + 1) (forensic_trackDetection now fs ty b) ty b)
        \<and> fst (forensic_isDuplicate (now + 45000 - 1) (forensic_trackDetection now fs ty b) ty b))"
  using isDuplicate_result [of now st ty b] forensic_isDuplicate_result [of now fs ty b]
    isDuplicate_window [of st now ty b] forensic_isDuplicate_window [of fs now ty b]
  by blast

theorem isDuplicate_characterisation_witness:
  "recentDetections empty_client = []
   \<and> \<not> fst (isDuplicate (0 + 30000 + 1) (trackDetection 0 empty_client ''crack'' (Some box_a))
            ''crack'' (Some box_a))
   \<and> fst (isDuplicate (0 + 30000 - 1) (trackDetection 0 empty_client ''crack'' (Some box_a))
          ''crack'' (Some box_a))
   \<and> f_recentDetections empty_forensic_client = []
   \<and> \<not> fst (forensic_isDuplicate (0 + 45000 + 1)
            (forensic_trackDetection 0 empty_forensic_client ''crack'' (Some box_a))
            ''crack'' (Some box_a))
   \<and> fst (forensic_isDuplicate (0 + 45000 - 1)
          (forensic_trackDetection 0 empty_forensic_client ''crack'' (Some box_a))
          ''crack'' (Some box_a))"
  using isDuplicate_characterisation
          [of 0 empty_client "''crack''" "Some box_a" empty_forensic_client]
  by (simp add: empty_client_def empty_forensic_client_def)

section \<open>Temporal consistency\<close>

lemma temporal_clean_eq:
  "temporal_clean now buf = filter (\<lambda>(k, d). now - t_lastSeen d \<le> 3000) buf"
  by (simp add: temporal_clean_def TEMPORAL_WINDOW_MS_def not_less)

lemma temporal_match_none:
  "\<forall>(k, d)\<in>set buf. \<not> same_defect ty b d \<Longrightarrow> temporal_match th now ty b c buf = None"
  by (induction buf) (auto simp: same_defect_def IOU_THRESHOLD_def)

lemma temporal_match_hit:
  "same_defect ty b d0 \<Longrightarrow>
   temporal_match th now ty b c ((k0, d0) # buf) =
     Some ((th \<le> t_frameCount d0 + 1, t_frameCount d0 + 1), (k0, seen_again now c d0) # buf)"
  by (simp add: same_defect_def seen_again_def IOU_THRESHOLD_def Let_def)

lemma temporal_match_skip:
  "\<not> same_defect ty b d0 \<Longrightarrow>
   temporal_match th now ty b c ((k0, d0) # buf) =
     (case temporal_match th now ty b c buf of
        None \<Rightarrow> None
      | Some (res, rest') \<Rightarrow> Some (res, (k0, d0) # rest'))"
  by (auto simp: same_defect_def IOU_THRESHOLD_def)

lemma temporal_match_first:
  assumes "\<exists>(k, d)\<in>set buf. same_defect ty b d"
  shows "\<exists>pre k d post. buf = pre @ (k, d) # post
           \<and> (\<forall>(k', d')\<in>set pre. \<not> same_defect ty b d') \<and> same_defect ty b d
           \<and> temporal_match th now ty b c buf =
               Some ((th \<le> t_frameCount d + 1, t_frameCount d + 1),
                     pre @ (k, seen_again now c d) # post)"
  using assms
proof (induction buf)
  case Nil
  then show ?case by simp
next
  case (Cons a buf)
  obtain k0 d0 where a: "a = (k0, d0)" by (cases a)
  show ?case
  proof (cases "same_defect ty b d0")
    case True
    then have "temporal_match th now ty b c (a # buf) =
                 Some ((th \<le> t_frameCount d0 + 1, t_frameCount d0 + 1),
                       [] @ (k0, seen_again now c d0) # buf)"
      by (simp only: a temporal_match_hit append_Nil)
    moreover have "a # buf = [] @ (k0, d0) # buf" by (simp add: a)
    moreover have "\<forall>(k', d')\<in>set []. \<not> same_defect ty b d'" by simp
    ultimately show ?thesis using True by blast
  next
    case False
    with Cons.prems a have "\<exists>(k, d)\<in>set buf. same_defect ty b d" by auto
    from Cons.IH [OF this] obtain pre k d post where
      buf: "buf = pre @ (k, d) # post"
      and pre: "\<forall>(k', d')\<in>set pre. \<not> same_defect ty b d'"
      and hit: "same_defect ty b d"
      and res: "temporal_match th now ty b c buf =
                  Some ((th \<le> t_frameCount d + 1, t_frameCount d + 1),
                        pre @ (k, seen_again now c d) # post)"
      by blast
    from temporal_match_skip [OF False, of th now c k0 buf] res
    have "temporal_match th now ty b c (a # buf) =
        Some ((th \<le> t_frameCount d + 1, t_frameCount d + 1),
              (a # pre) @ (k, seen_again now c d) # post)"
      by (simp only: a option.case prod.case append_Cons)
    moreover from buf have "a # buf = (a # pre) @ (k, d) # post" by simp
    moreover from pre False a have "\<forall>(k', d')\<in>set (a # pre). \<not> same_defect ty b d'" by simp
    ultimately show ?thesis using hit by blast
  qed
qed

lemma map_of_map_set: "map_of (map_set k v m) k = Some v"
  by (induction m) auto

lemma map_set_other: "k' \<noteq> k \<Longrightarrow> map_of (map_set k v m) k' = map_of m k'"
  by (induction m) auto

lemma checkTemporalConsistency_match:
  assumes "\<exists>(k, d)\<in>set (temporal_clean now (temporalBuffer st)). same_defect ty b d"
  shows "\<exists>pre k d post. temporal_clean now (temporalBuffer st) = pre @ (k, d) # post
           \<and> (\<forall>(k', d')\<in>set pre. \<not> same_defect ty b d') \<and> same_defect ty b d
           \<and> checkTemporalConsistency_at th now st ty b c =
               ((th \<le> t_frameCount d + 1, t_frameCount d + 1),
                st\<lparr>temporalBuffer := pre @ (k, seen_again now c d) # post\<rparr>)"
proof -
  from temporal_match_first [OF assms, of th now c] obtain pre k d post where
    "temporal_clean now (temporalBuffer st) = pre @ (k, d) # post"
    "\<forall>(k', d')\<in>set pre. \<not> same_defect ty b d'" "same_defect ty b d"
    "temporal_match th now ty b c (temporal_clean now (temporalBuffer st)) =
       Some ((th \<le> t_frameCount d + 1, t_frameCount d + 1), pre @ (k, seen_again now c d) # post)"
    by blast
  then show ?thesis
    by (intro exI [of _ pre] exI [of _ k] exI [of _ d] exI [of _ post])
       (simp add: checkTemporalConsistency_at_def Let_def)
qed

lemma checkTemporalConsistency_fresh:
  assumes "\<forall>(k, d)\<in>set (temporal_clean now (temporalBuffer st)). \<not> same_defect ty b d"
  shows "checkTemporalConsistency_at th now st ty b c =
           ((th \<le> 1, 1),
            st\<lparr>temporalBuffer :=
                 map_set (generateSpatialKey ty b) (first_sighting now ty b c)
                   (temporal_clean now (temporalBuffer st))\<rparr>)"
  using temporal_match_none [OF assms, of th now c]
  by (simp add: checkTemporalConsistency_at_def Let_def first_sighting_def)

lemma temporal_first_call:
  "temporalBuffer st = [] \<Longrightarrow>
   checkTemporalConsistency_at 2 t0 st ty b1 c1 =
     ((False, 1),
      st\<lparr>temporalBuffer := [(generateSpatialKey ty b1, first_sighting t0 ty b1 c1)]\<rparr>)"
  by (simp add: checkTemporalConsistency_at_def temporal_clean_def first_sighting_def Let_def)

lemma temporal_second_call:
  assumes "t1 - t0 \<le> 3000" and "calculateIoU b1 b2 \<ge> 0.25"
  shows "checkTemporalConsistency_at 2 t1
           (st\<lparr>temporalBuffer := [(key, first_sighting t0 ty b1 c1)]\<rparr>) ty b2 c2 =
         ((True, 2),
          st\<lparr>temporalBuffer := [(key, seen_again t1 c2 (first_sighting t0 ty b1 c1))]\<rparr>)"
proof -
  have "same_defect ty b2 (first_sighting t0 ty b1 c1)"
    using assms by (simp add: same_defect_def first_sighting_def)
  from temporal_match_hit [OF this, of 2 t1 c2 key "[]"]
  have "temporal_match 2 t1 ty b2 c2 [(key, first_sighting t0 ty b1 c1)] =
      Some ((True, 2), [(key, seen_again t1 c2 (first_sighting t0 ty b1 c1))])"
    by (simp add: first_sighting_def)
  moreover have "temporal_clean t1 [(key, first_sighting t0 ty b1 c1)]
                 = [(key, first_sighting t0 ty b1 c1)]"
    using assms by (simp add: temporal_clean_eq first_sighting_def)
  ultimately show ?thesis
    by (simp add: checkTemporalConsistency_at_def Let_def)
qed

lemma temporal_late_call:
  assumes "t2 - t1 > 3000"
  shows "fst (checkTemporalConsistency_at 2 t2
           (st\<lparr>temporalBuffer := [(key, seen_again t1 c2 d)]\<rparr>) ty b3 c3) = (False, 1)"
proof -
  have "temporal_clean t2 [(key, seen_again t1 c2 d)] = []"
    using assms by (simp add: temporal_clean_eq seen_again_def)
  then show ?thesis
    by (simp add: checkTemporalConsistency_at_def Let_def)
qed

lemma temporal_three_calls:
  assumes empty: "temporalBuffer st = []"
    and near: "t1 - t0 \<le> 3000" and overlap: "calculateIoU b1 b2 \<ge> 0.25"
    and late: "t2 - t1 > 3000"
  shows "fst (checkTemporalConsistency_at 2 t0 st ty b1 c1) = (False, 1)
    \<and> fst (checkTemporalConsistency_at 2 t1
               (snd (checkTemporalConsistency_at 2 t0 st ty b1 c1)) ty b2 c2) = (True, 2)
    \<and> fst (checkTemporalConsistency_at 2 t2
               (snd (checkTemporalConsistency_at 2 t1
                  (snd (checkTemporalConsistency_at 2 t0 st ty b1 c1)) ty b2 c2)) ty b3 c3)
         = (False, 1)"
  by (simp only: temporal_first_call [OF empty] temporal_second_call [OF near overlap]
      temporal_late_call [OF late] fst_conv snd_conv simp_thms)

text \<open>
  C3. A call first drops the candidates last seen more than 3000 ms ago. If one of the
  remaining candidates has the same type up to case and IoU at least 0.25 with the new
  box, the first such candidate in iteration order gets its frame count incremented,
  its last-seen time set to now and its confidence raised to the maximum, every other
  candidate is left as it is, and the call confirms exactly when the new frame count
  reaches the threshold. Otherwise the candidate of a first sighting (frame count 1) is
  stored under the spatial key and the call confirms exactly when the threshold is at
  most 1. With threshold 2 and an empty buffer: a first call does not confirm, a second
  overlapping call within the window confirms with frame count 2, and a call after the
  window has passed starts again at frame count 1. The deployed function is the one at
  threshold \<^const>\<open>TEMPORAL_THRESHOLD\<close>.
\<close>

theorem checkTemporalConsistency_characterisation:
  "temporal_clean now (temporalBuffer st) =
     filter (\<lambda>(k, d). now - t_lastSeen d \<le> 3000) (temporalBuffer st)
   \<and> ((\<exists>(k, d)\<in>set (temporal_clean now (temporalBuffer st)). same_defect ty b d) \<longrightarrow>
        (\<exists>pre k d post. temporal_clean now (temporalBuffer st) = pre @ (k, d) # post
           \<and> (\<forall>(k', d')\<in>set pre. \<not> same_defect ty b d') \<and> same_defect ty b d
           \<and> checkTemporalConsistency_at th now st ty b c =
               ((th \<le> t_frameCount d + 1, t_frameCount d + 1),
                st\<lparr>temporalBuffer := pre @ (k, seen_again now c d) # post\<rparr>)))
   \<and> ((\<forall>(k, d)\<in>set (temporal_clean now (temporalBuffer st)). \<not> same_defect ty b d) \<longrightarrow>
        checkTemporalConsistency_at th now st ty b c =
           ((th \<le> 1, 1),
            st\<lparr>temporalBuffer :=
                 map_set (generateSpatialKey ty b) (first_sighting now ty b c)
                   (temporal_clean now (temporalBuffer st))\<rparr>)
        \<and> map_of (temporalBuffer (snd (checkTemporalConsistency_at th now st ty b c)))
             (generateSpatialKey ty b) = Some (first_sighting now ty b c))
   \<and> (temporalBuffer st = [] \<and> t1 - now \<le> 3000 \<and> calculateIoU b b2 \<ge> 0.25 \<and> t2 - t1 > 3000 \<longrightarrow>
        fst (checkTemporalConsistency_at 2 now st ty b c) = (False, 1)
        \<and> fst (checkTemporalConsistency_at 2 t1
                 (snd (checkTemporalConsistency_at 2 now st ty b c)) ty b2 c2) = (True, 2)
        \<and> fst (checkTemporalConsistency_at 2 t2
                 (snd (checkTemporalConsistency_at 2 t1
                    (snd (checkTemporalConsistency_at 2 now st ty b c)) ty b2 c2)) ty b3 c3)
            = (False, 1))
   \<and> checkTemporalConsistency now st ty b c = checkTemporalConsistency_at 1 now st ty b c"
proof -
  have fresh: "(\<forall>(k, d)\<in>set (temporal_clean now (temporalBuffer st)). \<not> same_defect ty b d) \<longrightarrow>
        checkTemporalConsistency_at th now st ty b c =
           ((th \<le> 1, 1),
            st\<lparr>temporalBuffer :=
                 map_set (generateSpatialKey ty b) (first_sighting now ty b c)
                   (temporal_clean now (temporalBuffer st))\<rparr>)
        \<and> map_of (temporalBuffer (snd (checkTemporalConsistency_at th now st ty b c)))
             (generateSpatialKey ty b) = Some (first_sighting now ty b c)"
    using checkTemporalConsistency_fresh [of now st ty b th c]
    by (simp add: map_of_map_set)
  have deployed: "checkTemporalConsistency now st ty b c = checkTemporalConsistency_at 1 now st ty b c"
    by (simp add: checkTemporalConsistency_def TEMPORAL_THRESHOLD_def)
  show ?thesis
    using temporal_clean_eq [of now "temporalBuffer st"]
      checkTemporalConsistency_match [of now st ty b th c] fresh deployed
      temporal_three_calls [of st t1 now b b2 t2 ty c c2 b3 c3]
    by blast
qed

theorem checkTemporalConsistency_characterisation_witness:
  "temporalBuffer empty_client = [] \<and> (1250::int) - 1000 \<le> 3000
   \<and> calculateIoU box_a box_b \<ge> 0.25 \<and> (5000::int) - 1250 > 3000
   \<and> fst (checkTemporalConsistency_at 2 1000 empty_client ''crack'' box_a 80) = (False, 1)
   \<and> fst (checkTemporalConsistency_at 2 1250
            (snd (checkTemporalConsistency_at 2 1000 empty_client ''crack'' box_a 80))
            ''crack'' box_b 85) = (True, 2)
   \<and> fst (checkTemporalConsistency_at 2 5000
            (snd (checkTemporalConsistency_at 2 1250
               (snd (checkTemporalConsistency_at 2 1000 empty_client ''crack'' box_a 80))
               ''crack'' box_b 85)) ''crack'' box_b 85) = (False, 1)
   \<and> (\<exists>(k, d)\<in>set (temporal_clean 1250
          (temporalBuffer (empty_client\<lparr>temporalBuffer :=
             [(''crack_4_4'', first_sighting 1000 ''crack'' box_a 80)]\<rparr>))).
        same_defect ''Crack'' box_b d)
   \<and> checkTemporalConsistency_at 2 1250
        (empty_client\<lparr>temporalBuffer :=
           [(''crack_4_4'', first_sighting 1000 ''crack'' box_a 80)]\<rparr>) ''Crack'' box_b 85
      = ((True, 2),
         empty_client\<lparr>temporalBuffer :=
           [(''crack_4_4'', seen_again 1250 85 (first_sighting 1000 ''crack'' box_a 80))]\<rparr>)
   \<and> checkTemporalConsistency_at 2 1000 empty_client ''crack'' box_a 80
      = ((False, 1),
         empty_client\<lparr>temporalBuffer :=
           [(generateSpatialKey ''crack'' box_a, first_sighting 1000 ''crack'' box_a 80)]\<rparr>)
   \<and> generateSpatialKey ''crack'' box_a = ''crack_4_4''"
proof -
  note main = checkTemporalConsistency_characterisation
  have given: "temporalBuffer empty_client = [] \<and> (1250::int) - 1000 \<le> 3000
      \<and> calculateIoU box_a box_b \<ge> 0.25 \<and> (5000::int) - 1250 > 3000"
    using calculateIoU_box_a_box_b by (simp add: empty_client_def)
  with main [of 1000 empty_client "''crack''" box_a 2 80 1250 box_b 5000 85 box_b 85,
          THEN conjunct2, THEN conjunct2, THEN conjunct2, THEN conjunct1]
  have three: "fst (checkTemporalConsistency_at 2 1000 empty_client ''crack'' box_a 80) = (False, 1)
   \<and> fst (checkTemporalConsistency_at 2 1250
            (snd (checkTemporalConsistency_at 2 1000 empty_client ''crack'' box_a 80))
            ''crack'' box_b 85) = (True, 2)
   \<and> fst (checkTemporalConsistency_at 2 5000
            (snd (checkTemporalConsistency_at 2 1250
               (snd (checkTemporalConsistency_at 2 1000 empty_client ''crack'' box_a 80))
               ''crack'' box_b 85)) ''crack'' box_b 85) = (False, 1)"
    by blast
  define st1 where "st1 = empty_client\<lparr>temporalBuffer :=
             [(''crack_4_4'', first_sighting 1000 ''crack'' box_a 80)]\<rparr>"
  have lower: "toLowerCase ''Crack'' = toLowerCase ''crack''" by code_simp
  have kept: "temporal_clean 1250 (temporalBuffer st1)
      = [(''crack_4_4'', first_sighting 1000 ''crack'' box_a 80)]"
    by (simp add: st1_def temporal_clean_eq first_sighting_def)
  have hit: "same_defect ''Crack'' box_b (first_sighting 1000 ''crack'' box_a 80)"
    using calculateIoU_box_a_box_b lower by (simp add: same_defect_def first_sighting_def)
  then have ex: "\<exists>(k, d)\<in>set (temporal_clean 1250 (temporalBuffer st1)). same_defect ''Crack'' box_b d"
    by (simp add: kept)
  from main [of 1250 st1 "''Crack''" box_b 2 85 0 box_b 0 0 box_b 0,
      THEN conjunct2, THEN conjunct1] ex
  obtain pre k d post where
    split: "temporal_clean 1250 (temporalBuffer st1) = pre @ (k, d) # post"
    and run: "checkTemporalConsistency_at 2 1250 st1 ''Crack'' box_b 85 =
               ((2 \<le> t_frameCount d + 1, t_frameCount d + 1),
                st1\<lparr>temporalBuffer := pre @ (k, seen_again 1250 85 d) # post\<rparr>)"
    by blast
  from split have parts: "pre = []" "post = []" "k = ''crack_4_4''"
    "d = first_sighting 1000 ''crack'' box_a 80"
    unfolding kept by (auto simp: Cons_eq_append_conv)
  have matched: "checkTemporalConsistency_at 2 1250 st1 ''Crack'' box_b 85
      = ((True, 2),
         st1\<lparr>temporalBuffer :=
           [(''crack_4_4'', seen_again 1250 85 (first_sighting 1000 ''crack'' box_a 80))]\<rparr>)"
    using run unfolding parts by (simp add: first_sighting_def)
  have none: "\<forall>(k, d)\<in>set (temporal_clean 1000 (temporalBuffer empty_client)).
      \<not> same_defect ''crack'' box_a d"
    by (simp add: empty_client_def temporal_clean_eq)
  with main [of 1000 empty_client "''crack''" box_a 2 80 0 box_b 0 0 box_b 0,
      THEN conjunct2, THEN conjunct2, THEN conjunct1]
  have fresh: "checkTemporalConsistency_at 2 1000 empty_client ''crack'' box_a 80
      = ((False, 1),
         empty_client\<lparr>temporalBuffer :=
           [(generateSpatialKey ''crack'' box_a, first_sighting 1000 ''crack'' box_a 80)]\<rparr>)"
    by (simp add: empty_client_def temporal_clean_eq)
  have lc: "toLowerCase ''crack'' = ''crack''" by code_simp
  have num: "show_int 4 = ''4''" by code_simp
  have key: "generateSpatialKey ''crack'' box_a = ''crack_4_4''"
    by (simp add: generateSpatialKey_def box_a_def Math_round_def lc num Let_def)
  from given three ex matched fresh key show ?thesis
    unfolding st1_def by (simp add: empty_client_def)
qed

section \<open>Box normalization and validation\<close>

lemma Max_four:
  fixes a b c d :: real
  shows "Max {a, b, c, d} = max (max (max a b) c) d"
  by (simp add: max.commute max.left_commute)

lemma swap_pair:
  fixes a b :: real
  shows "(if a > b then (b, a) else (a, b)) = (min a b, max a b)"
  by (simp add: min_def max_def)

lemma scale_cases:
  fixes m a b c d :: real
  shows "(if m > 100 then (a / 1000, b / 1000, c / 1000, d / 1000)
          else if m > 1 then (a / 100, b / 100, c / 100, d / 100)
          else (a, b, c, d))
         = (a / (if m > 100 then 1000 else if 1 < m \<and> m \<le> 100 then 100 else 1),
            b / (if m > 100 then 1000 else if 1 < m \<and> m \<le> 100 then 100 else 1),
            c / (if m > 100 then 1000 else if 1 < m \<and> m \<le> 100 then 100 else 1),
            d / (if m > 100 then 1000 else if 1 < m \<and> m \<le> 100 then 100 else 1))"
  by simp

lemma clamp01_range: "0 \<le> clamp01 v" "clamp01 v \<le> 1"
  by (simp_all add: clamp01_def)

lemma clamp01_unit: "0 \<le> v \<Longrightarrow> v \<le> 1 \<Longrightarrow> clamp01 v = v"
  by (simp add: clamp01_def)

lemma normalizeBox_scaled:
  "normalizeBox y0 x0 y1 x1 =
     (let s = (if Max {y0, x0, y1, x1} > 100 then 1000
               else if 1 < Max {y0, x0, y1, x1} \<and> Max {y0, x0, y1, x1} \<le> 100 then 100 else 1)
      in if clamp01 (max (y0 / s) (y1 / s)) \<le> clamp01 (min (y0 / s) (y1 / s))
            \<or> clamp01 (max (x0 / s) (x1 / s)) \<le> clamp01 (min (x0 / s) (x1 / s))
         then None
         else Some \<lparr> ymin = clamp01 (min (y0 / s) (y1 / s)), xmin = clamp01 (min (x0 / s) (x1 / s)),
                     ymax = clamp01 (max (y0 / s) (y1 / s)), xmax = clamp01 (max (x0 / s) (x1 / s)) \<rparr>)"
  unfolding normalizeBox_def Let_def swap_pair Max_four scale_cases clamp01_def
  by (simp only: prod.case bbox.simps)

lemma normalizeBox_unfold:
  "normalizeBox y0 x0 y1 x1 =
     (let m = Max {y0, x0, y1, x1};
          s = (if m > 100 then 1000 else if 1 < m \<and> m \<le> 100 then 100 else 1);
          lo_y = clamp01 (min (y0 / s) (y1 / s));
          hi_y = clamp01 (max (y0 / s) (y1 / s));
          lo_x = clamp01 (min (x0 / s) (x1 / s));
          hi_x = clamp01 (max (x0 / s) (x1 / s))
      in if hi_y - lo_y \<le> 0 \<or> hi_x - lo_x \<le> 0 then None
         else Some \<lparr> ymin = lo_y, xmin = lo_x, ymax = hi_y, xmax = hi_x \<rparr>)"
  by (simp only: normalizeBox_scaled Let_def diff_le_0_iff_le)

lemma normalizeBox_unit:
  assumes "0 \<le> y0" "y0 \<le> 1" "0 \<le> x0" "x0 \<le> 1" "0 \<le> y1" "y1 \<le> 1" "0 \<le> x1" "x1 \<le> 1"
  shows "normalizeBox y0 x0 y1 x1 =
           (if y0 = y1 \<or> x0 = x1 then None
            else Some \<lparr> ymin = min y0 y1, xmin = min x0 x1, ymax = max y0 y1, xmax = max x0 x1 \<rparr>)"
proof -
  define M where "M = Max {y0, x0, y1, x1}"
  have m: "M \<le> 1" unfolding M_def using assms by simp
  have c: "clamp01 (min y0 y1) = min y0 y1" "clamp01 (max y0 y1) = max y0 y1"
    "clamp01 (min x0 x1) = min x0 x1" "clamp01 (max x0 x1) = max x0 x1"
    using assms by (simp_all add: clamp01_unit min_def max_def)
  have e: "max y0 y1 \<le> min y0 y1 \<longleftrightarrow> y0 = y1" "max x0 x1 \<le> min x0 x1 \<longleftrightarrow> x0 = x1"
    by (auto simp: min_def max_def)
  from m have s: "(if M > 100 then 1000 else if 1 < M \<and> M \<le> 100 then 100 else (1::real)) = 1"
    by simp
  show ?thesis
    unfolding normalizeBox_scaled Let_def M_def [symmetric] s
    by (simp only: div_by_1 c e)
qed

lemma normalizeBox_normalized:
  assumes "normalizeBox y0 x0 y1 x1 = Some bb"
  shows "normalized_box bb"
proof -
  define s :: real where "s = (if Max {y0, x0, y1, x1} > 100 then 1000
               else if 1 < Max {y0, x0, y1, x1} \<and> Max {y0, x0, y1, x1} \<le> 100 then 100 else 1)"
  have eq: "normalizeBox y0 x0 y1 x1 =
      (if clamp01 (max (y0 / s) (y1 / s)) \<le> clamp01 (min (y0 / s) (y1 / s))
            \<or> clamp01 (max (x0 / s) (x1 / s)) \<le> clamp01 (min (x0 / s) (x1 / s))
         then None
         else Some \<lparr> ymin = clamp01 (min (y0 / s) (y1 / s)), xmin = clamp01 (min (x0 / s) (x1 / s)),
                     ymax = clamp01 (max (y0 / s) (y1 / s)), xmax = clamp01 (max (x0 / s) (x1 / s)) \<rparr>)"
    unfolding s_def by (simp only: normalizeBox_scaled Let_def)
  show ?thesis
  proof (cases "clamp01 (max (y0 / s) (y1 / s)) \<le> clamp01 (min (y0 / s) (y1 / s))
            \<or> clamp01 (max (x0 / s) (x1 / s)) \<le> clamp01 (min (x0 / s) (x1 / s))")
    case True
    with eq assms show ?thesis by simp
  next
    case False
    with eq assms have bb: "bb = \<lparr> ymin = clamp01 (min (y0 / s) (y1 / s)),
        xmin = clamp01 (min (x0 / s) (x1 / s)),
        ymax = clamp01 (max (y0 / s) (y1 / s)), xmax = clamp01 (max (x0 / s) (x1 / s)) \<rparr>"
      by simp
    from False show ?thesis
      unfolding bb normalized_box_def by (simp add: clamp01_range not_le)
  qed
qed

lemma normalizeBox_fixed:
  assumes "normalized_box bb"
  shows "normalizeBox (ymin bb) (xmin bb) (ymax bb) (xmax bb) = Some bb"
proof -
  from assms have "normalizeBox (ymin bb) (xmin bb) (ymax bb) (xmax bb) =
      Some \<lparr> ymin = ymin bb, xmin = xmin bb, ymax = ymax bb, xmax = xmax bb \<rparr>"
    by (simp add: normalizeBox_unit normalized_box_def)
  then show ?thesis by simp
qed

lemma normalizeBox_example:
  "normalizeBox 200 150 450 180 = Some \<lparr> ymin = 0.2, xmin = 0.15, ymax = 0.45, xmax = 0.18 \<rparr>"
  by (simp add: normalizeBox_def Let_def)

lemma parseBox_numbers:
  "parseBox (defect_payload conf (box_array y0 x0 y1 x1)) =
     (case normalizeBox y0 x0 y1 x1 of None \<Rightarrow> None | Some bb \<Rightarrow> validateBox bb)"
  by (simp add: parseBox_def defect_payload_def box_array_def)

lemma validateBox_unfold:
  "validateBox bb =
     (if box_area bb < 0.001 \<or> box_area bb > 0.70 \<or> aspect_ratio bb > 15 then None else Some bb)"
  by (simp add: validateBox_def box_area_def aspect_ratio_def Let_def)

lemma parseBox_example:
  "parseBox (defect_payload (Some (JNum 85)) (box_array 200 150 450 180)) =
     Some \<lparr> ymin = 0.2, xmin = 0.15, ymax = 0.45, xmax = 0.18 \<rparr>"
  by (simp add: parseBox_numbers normalizeBox_example validateBox_def Let_def)

lemma parseDefectResponse_boxless:
  assumes "parseBox (defect_payload (Some (JNum c)) box2d) = None"
    and "truthy box2d \<longrightarrow> isArray box2d"
    and "60 \<le> c" and "c \<le> 100" and "recentDetections st = []"
  shows "fst (parseDefectResponse now st (defect_payload (Some (JNum c)) box2d))
         = Detected ''crack'' None c"
proof -
  let ?data = "defect_payload (Some (JNum c)) box2d"
  have conf: "parse_confidence ?data = c"
    using assms(3,4) by (simp add: parse_confidence_def defect_payload_def Let_def)
  have fields: "?data ''box_2d'' = box2d" "?data ''type'' = Some (JStr ''defect'')"
    "?data ''defectType'' = Some (JStr ''crack'')"
    by (simp_all add: defect_payload_def)
  have dup: "isDuplicate now st ''crack'' None = (False, st)"
    using assms(5) by (simp add: isDuplicate_def Let_def)
  show ?thesis
    using assms(2,3)
    by (simp add: parseDefectResponse_def fields conf assms(1) dup js_or_def
        MIN_CONFIDENCE_THRESHOLD_def Let_def)
qed

text \<open>
  C1. The scale is 1000 when the largest of the four numbers is above 100, 100 when it
  is above 1 and at most 100, and 1 otherwise; the scaled pairs are put in order and
  clamped to the unit interval; the box is dropped when its width or height is not
  positive. A returned box is a fixed point of the normalization. On four numbers in the
  unit interval nothing is scaled or clamped: the box is the input with each pair in
  order, unchanged when the pairs are in order already, and dropped when a pair is
  equal. The tuple [200,150,450,180] gives the box 0.2, 0.15, 0.45, 0.18, also after
  the later size filter. A payload whose box is dropped is reported without a box.
\<close>

theorem normalizeBox_characterisation:
  "normalizeBox y0 x0 y1 x1 =
     (let m = Max {y0, x0, y1, x1};
          s = (if m > 100 then 1000 else if 1 < m \<and> m \<le> 100 then 100 else 1);
          lo_y = clamp01 (min (y0 / s) (y1 / s));
          hi_y = clamp01 (max (y0 / s) (y1 / s));
          lo_x = clamp01 (min (x0 / s) (x1 / s));
          hi_x = clamp01 (max (x0 / s) (x1 / s))
      in if hi_y - lo_y \<le> 0 \<or> hi_x - lo_x \<le> 0 then None
         else Some \<lparr> ymin = lo_y, xmin = lo_x, ymax = hi_y, xmax = hi_x \<rparr>)
   \<and> (normalizeBox y0 x0 y1 x1 = Some bb \<longrightarrow>
        normalizeBox (ymin bb) (xmin bb) (ymax bb) (xmax bb) = Some bb)
   \<and> (0 \<le> y0 \<and> y0 \<le> 1 \<and> 0 \<le> x0 \<and> x0 \<le> 1 \<and> 0 \<le> y1 \<and> y1 \<le> 1 \<and> 0 \<le> x1 \<and> x1 \<le> 1 \<longrightarrow>
        normalizeBox y0 x0 y1 x1 =
          (if y0 = y1 \<or> x0 = x1 then None
           else Some \<lparr> ymin = min y0 y1, xmin = min x0 x1,
                       ymax = max y0 y1, xmax = max x0 x1 \<rparr>))
   \<and> (0 \<le> y0 \<and> y0 < y1 \<and> y1 \<le> 1 \<and> 0 \<le> x0 \<and> x0 < x1 \<and> x1 \<le> 1 \<longrightarrow>
        normalizeBox y0 x0 y1 x1 = Some \<lparr> ymin = y0, xmin = x0, ymax = y1, xmax = x1 \<rparr>)
   \<and> normalizeBox 200 150 450 180 = Some \<lparr> ymin = 0.2, xmin = 0.15, ymax = 0.45, xmax = 0.18 \<rparr>
   \<and> parseBox (defect_payload (Some (JNum 85)) (box_array 200 150 450 180)) =
        Some \<lparr> ymin = 0.2, xmin = 0.15, ymax = 0.45, xmax = 0.18 \<rparr>
   \<and> (normalizeBox y0 x0 y1 x1 = None \<and> 60 \<le> c \<and> c \<le> 100 \<and> recentDetections st = [] \<longrightarrow>
        fst (parseDefectResponse now st (defect_payload (Some (JNum c)) (box_array y0 x0 y1 x1)))
        = Detected ''crack'' None c)"
proof -
  have idem: "normalizeBox y0 x0 y1 x1 = Some bb \<longrightarrow>
        normalizeBox (ymin bb) (xmin bb) (ymax bb) (xmax bb) = Some bb"
    using normalizeBox_normalized [of y0 x0 y1 x1 bb] normalizeBox_fixed [of bb] by blast
  have unit: "0 \<le> y0 \<and> y0 \<le> 1 \<and> 0 \<le> x0 \<and> x0 \<le> 1 \<and> 0 \<le> y1 \<and> y1 \<le> 1 \<and> 0 \<le> x1 \<and> x1 \<le> 1 \<longrightarrow>
        normalizeBox y0 x0 y1 x1 =
          (if y0 = y1 \<or> x0 = x1 then None
           else Some \<lparr> ymin = min y0 y1, xmin = min x0 x1,
                       ymax = max y0 y1, xmax = max x0 x1 \<rparr>)"
    using normalizeBox_unit [of y0 x0 y1 x1] by blast
  have same: "0 \<le> y0 \<and> y0 < y1 \<and> y1 \<le> 1 \<and> 0 \<le> x0 \<and> x0 < x1 \<and> x1 \<le> 1 \<longrightarrow>
        normalizeBox y0 x0 y1 x1 = Some \<lparr> ymin = y0, xmin = x0, ymax = y1, xmax = x1 \<rparr>"
    using normalizeBox_unit [of y0 x0 y1 x1] by (simp add: min_def max_def)
  have boxless: "normalizeBox y0 x0 y1 x1 = None \<and> 60 \<le> c \<and> c \<le> 100 \<and> recentDetections st = [] \<longrightarrow>
        fst (parseDefectResponse now st (defect_payload (Some (JNum c)) (box_array y0 x0 y1 x1)))
        = Detected ''crack'' None c"
  proof (intro impI, elim conjE)
    assume none: "normalizeBox y0 x0 y1 x1 = None" and c: "60 \<le> c" "c \<le> 100"
      and st: "recentDetections st = []"
    from none have "parseBox (defect_payload (Some (JNum c)) (box_array y0 x0 y1 x1)) = None"
      by (simp add: parseBox_numbers)
    moreover have "truthy (box_array y0 x0 y1 x1) \<longrightarrow> isArray (box_array y0 x0 y1 x1)"
      by (simp add: box_array_def)
    ultimately show "fst (parseDefectResponse now st
          (defect_payload (Some (JNum c)) (box_array y0 x0 y1 x1))) = Detected ''crack'' None c"
      using c st by (rule parseDefectResponse_boxless)
  qed
  show ?thesis
    using normalizeBox_unfold [of y0 x0 y1 x1] idem unit same normalizeBox_example
      parseBox_example boxless
    by blast
qed

theorem normalizeBox_characterisation_witness:
  "normalizeBox 200 150 450 180 = Some box_crack
   \<and> normalizeBox (ymin box_crack) (xmin box_crack) (ymax box_crack) (xmax box_crack)
       = Some box_crack
   \<and> (0::real) \<le> 0.5 \<and> (0.5::real) \<le> 1 \<and> (0::real) \<le> 0.2 \<and> (0.2::real) \<le> 1
   \<and> (0::real) \<le> 0.3 \<and> (0.3::real) \<le> 1 \<and> (0::real) \<le> 0.8 \<and> (0.8::real) \<le> 1
   \<and> normalizeBox 0.5 0.2 0.3 0.8 = Some \<lparr> ymin = 0.3, xmin = 0.2, ymax = 0.5, xmax = 0.8 \<rparr>
   \<and> (0.3::real) < 0.5 \<and> (0.2::real) < 0.8
   \<and> normalizeBox 0.3 0.2 0.5 0.8 = Some \<lparr> ymin = 0.3, xmin = 0.2, ymax = 0.5, xmax = 0.8 \<rparr>
   \<and> normalizeBox 0.3 0.3 0.3 0.3 = None
   \<and> (60::real) \<le> 85 \<and> (85::real) \<le> 100 \<and> recentDetections empty_client = []
   \<and> fst (parseDefectResponse 1000 empty_client
            (defect_payload (Some (JNum 85)) (box_array 0.3 0.3 0.3 0.3)))
      = Detected ''crack'' None 85"
proof -
  note main = normalizeBox_characterisation
  have a: "normalizeBox 200 150 450 180 = Some box_crack"
    using main [of 0 0 0 0 box_a 0 empty_client 0] unfolding box_crack_def by blast
  have b: "normalizeBox (ymin box_crack) (xmin box_crack) (ymax box_crack) (xmax box_crack)
       = Some box_crack"
    using main [of 200 150 450 180 box_crack 0 empty_client 0] a by blast
  have c: "normalizeBox 0.5 0.2 0.3 0.8 = Some \<lparr> ymin = 0.3, xmin = 0.2, ymax = 0.5, xmax = 0.8 \<rparr>"
    using main [of "0.5" "0.2" "0.3" "0.8" box_a 0 empty_client 0, THEN conjunct2, THEN conjunct2,
        THEN conjunct1] by simp
  have c': "normalizeBox 0.3 0.2 0.5 0.8 = Some \<lparr> ymin = 0.3, xmin = 0.2, ymax = 0.5, xmax = 0.8 \<rparr>"
    using main [of "0.3" "0.2" "0.5" "0.8" box_a 0 empty_client 0, THEN conjunct2, THEN conjunct2,
        THEN conjunct2, THEN conjunct1] by simp
  have d: "normalizeBox 0.3 0.3 0.3 0.3 = None"
    using main [of "0.3" "0.3" "0.3" "0.3" box_a 0 empty_client 0, THEN conjunct2, THEN conjunct2,
        THEN conjunct1] by simp
  have e: "fst (parseDefectResponse 1000 empty_client
            (defect_payload (Some (JNum 85)) (box_array 0.3 0.3 0.3 0.3)))
      = Detected ''crack'' None 85"
    using d main [of "0.3" "0.3" "0.3" "0.3" box_a 85 empty_client 1000]
    by (simp add: empty_client_def)
  have f: "recentDetections empty_client = []" by (simp add: empty_client_def)
  from a b c c' d e f show ?thesis by simp
qed

section \<open>The size and aspect-ratio filter\<close>

lemma validateBox_Some: "validateBox bb = Some b' \<Longrightarrow> b' = bb"
  by (simp add: validateBox_unfold split: if_splits)

lemma parseDefectResponse_filtered_box:
  assumes "normalizeBox y0 x0 y1 x1 = Some nb" and "validateBox nb = None"
    and "60 \<le> c" and "c \<le> 100" and "recentDetections st = []"
  shows "fst (parseDefectResponse now st (defect_payload (Some (JNum c)) (box_array y0 x0 y1 x1)))
         = Detected ''crack'' None c"
proof -
  from assms(1,2)
  have "parseBox (defect_payload (Some (JNum c)) (box_array y0 x0 y1 x1)) = None"
    by (simp add: parseBox_numbers)
  moreover have "truthy (box_array y0 x0 y1 x1) \<longrightarrow> isArray (box_array y0 x0 y1 x1)"
    by (simp add: box_array_def)
  ultimately show ?thesis
    using assms(3,4,5) by (rule parseDefectResponse_boxless)
qed

text \<open>
  C6. A box that passed normalization is dropped by the filter exactly when its area is
  below 0.001 or above 0.70 or its aspect ratio is above 15, and is kept as it is
  otherwise; the box of a payload goes through normalization and then this filter, and a
  payload whose box is dropped is reported without a box. Every box of area 0.0009 and
  every box of aspect ratio 16 is dropped; a box of area 0.0011 is kept when its aspect
  ratio is at most 15, and a box of aspect ratio 14 is kept when its area is between
  0.001 and 0.70.
\<close>

theorem validateBox_boundaries:
  "validateBox bb =
     (if box_area bb < 0.001 \<or> box_area bb > 0.70 \<or> aspect_ratio bb > 15 then None else Some bb)
   \<and> parseBox (defect_payload conf (box_array y0 x0 y1 x1)) =
       (case normalizeBox y0 x0 y1 x1 of None \<Rightarrow> None | Some nb \<Rightarrow> validateBox nb)
   \<and> (normalizeBox y0 x0 y1 x1 = Some nb \<and> validateBox nb = None
        \<and> 60 \<le> c \<and> c \<le> 100 \<and> recentDetections st = [] \<longrightarrow>
        fst (parseDefectResponse now st (defect_payload (Some (JNum c)) (box_array y0 x0 y1 x1)))
        = Detected ''crack'' None c)
   \<and> (box_area bb = 0.0009 \<longrightarrow> validateBox bb = None)
   \<and> (box_area bb = 0.0011 \<and> aspect_ratio bb \<le> 15 \<longrightarrow> validateBox bb = Some bb)
   \<and> (aspect_ratio bb = 16 \<longrightarrow> validateBox bb = None)
   \<and> (aspect_ratio bb = 14 \<and> 0.001 \<le> box_area bb \<and> box_area bb \<le> 0.70 \<longrightarrow>
        validateBox bb = Some bb)"
proof -
  have small: "box_area bb = 0.0009 \<longrightarrow> validateBox bb = None"
    by (simp add: validateBox_unfold)
  have kept: "box_area bb = 0.0011 \<and> aspect_ratio bb \<le> 15 \<longrightarrow> validateBox bb = Some bb"
    by (simp add: validateBox_unfold)
  have sliver: "aspect_ratio bb = 16 \<longrightarrow> validateBox bb = None"
    by (simp add: validateBox_unfold)
  have long: "aspect_ratio bb = 14 \<and> 0.001 \<le> box_area bb \<and> box_area bb \<le> 0.70 \<longrightarrow>
        validateBox bb = Some bb"
    by (simp add: validateBox_unfold)
  show ?thesis
    using validateBox_unfold [of bb] parseBox_numbers [of conf y0 x0 y1 x1]
      parseDefectResponse_filtered_box [of y0 x0 y1 x1 nb c st now] small kept sliver long
    by blast
qed

lemma box_examples:
  "box_area \<lparr> ymin = 0, xmin = 0, ymax = 0.03, xmax = 0.03 \<rparr> = 0.0009"
  "box_area \<lparr> ymin = 0, xmin = 0, ymax = 0.011, xmax = 0.1 \<rparr> = 0.0011"
  "aspect_ratio \<lparr> ymin = 0, xmin = 0, ymax = 0.011, xmax = 0.1 \<rparr> \<le> 15"
  "aspect_ratio \<lparr> ymin = 0, xmin = 0, ymax = 0.025, xmax = 0.4 \<rparr> = 16"
  "aspect_ratio \<lparr> ymin = 0, xmin = 0, ymax = 0.025, xmax = 0.35 \<rparr> = 14"
  "0.001 \<le> box_area \<lparr> ymin = 0, xmin = 0, ymax = 0.025, xmax = 0.35 \<rparr>"
  "box_area \<lparr> ymin = 0, xmin = 0, ymax = 0.025, xmax = 0.35 \<rparr> \<le> 0.70"
  by (simp_all add: box_area_def aspect_ratio_def)

theorem validateBox_boundaries_witness:
  "box_area \<lparr> ymin = 0, xmin = 0, ymax = 0.03, xmax = 0.03 \<rparr> = 0.0009
   \<and> validateBox \<lparr> ymin = 0, xmin = 0, ymax = 0.03, xmax = 0.03 \<rparr> = None
   \<and> box_area \<lparr> ymin = 0, xmin = 0, ymax = 0.011, xmax = 0.1 \<rparr> = 0.0011
   \<and> aspect_ratio \<lparr> ymin = 0, xmin = 0, ymax = 0.011, xmax = 0.1 \<rparr> \<le> 15
   \<and> validateBox \<lparr> ymin = 0, xmin = 0, ymax = 0.011, xmax = 0.1 \<rparr>
       = Some \<lparr> ymin = 0, xmin = 0, ymax = 0.011, xmax = 0.1 \<rparr>
   \<and> aspect_ratio \<lparr> ymin = 0, xmin = 0, ymax = 0.025, xmax = 0.4 \<rparr> = 16
   \<and> validateBox \<lparr> ymin = 0, xmin = 0, ymax = 0.025, xmax = 0.4 \<rparr> = None
   \<and> aspect_ratio \<lparr> ymin = 0, xmin = 0, ymax = 0.025, xmax = 0.35 \<rparr> = 14
   \<and> 0.001 \<le> box_area \<lparr> ymin = 0, xmin = 0, ymax = 0.025, xmax = 0.35 \<rparr>
   \<and> box_area \<lparr> ymin = 0, xmin = 0, ymax = 0.025, xmax = 0.35 \<rparr> \<le> 0.70
   \<and> validateBox \<lparr> ymin = 0, xmin = 0, ymax = 0.025, xmax = 0.35 \<rparr>
       = Some \<lparr> ymin = 0, xmin = 0, ymax = 0.025, xmax = 0.35 \<rparr>
   \<and> normalizeBox 0 0 0.03 0.03 = Some \<lparr> ymin = 0, xmin = 0, ymax = 0.03, xmax = 0.03 \<rparr>
   \<and> (60::real) \<le> 85 \<and> (85::real) \<le> 100 \<and> recentDetections empty_client = []
   \<and> fst (parseDefectResponse 1000 empty_client
            (defect_payload (Some (JNum 85)) (box_array 0 0 0.03 0.03)))
       = Detected ''crack'' None 85"
proof -
  note main = validateBox_boundaries
  let ?small = "\<lparr> ymin = 0, xmin = 0, ymax = 0.03, xmax = 0.03 \<rparr>"
  have norm: "normalizeBox 0 0 0.03 0.03 = Some ?small"
    by (simp add: normalizeBox_unit)
  have a: "validateBox ?small = None"
    using main [of ?small None 0 0 0 0 ?small 0 empty_client 0] box_examples by blast
  have b: "validateBox \<lparr> ymin = 0, xmin = 0, ymax = 0.011, xmax = 0.1 \<rparr>
       = Some \<lparr> ymin = 0, xmin = 0, ymax = 0.011, xmax = 0.1 \<rparr>"
    using main [of "\<lparr> ymin = 0, xmin = 0, ymax = 0.011, xmax = 0.1 \<rparr>"
        None 0 0 0 0 ?small 0 empty_client 0] box_examples by blast
  have c: "validateBox \<lparr> ymin = 0, xmin = 0, ymax = 0.025, xmax = 0.4 \<rparr> = None"
    using main [of "\<lparr> ymin = 0, xmin = 0, ymax = 0.025, xmax = 0.4 \<rparr>"
        None 0 0 0 0 ?small 0 empty_client 0] box_examples by blast
  have d: "validateBox \<lparr> ymin = 0, xmin = 0, ymax = 0.025, xmax = 0.35 \<rparr>
       = Some \<lparr> ymin = 0, xmin = 0, ymax = 0.025, xmax = 0.35 \<rparr>"
    using main [of "\<lparr> ymin = 0, xmin = 0, ymax = 0.025, xmax = 0.35 \<rparr>"
        None 0 0 0 0 ?small 0 empty_client 0] box_examples by blast
  have given: "(60::real) \<le> 85 \<and> (85::real) \<le> 100 \<and> recentDetections empty_client = []"
    by (simp add: empty_client_def)
  have e: "fst (parseDefectResponse 1000 empty_client
            (defect_payload (Some (JNum 85)) (box_array 0 0 0.03 0.03)))
       = Detected ''crack'' None 85"
    using main [of ?small None 0 0 "0.03" "0.03" ?small 85 empty_client 1000] norm a given
    by blast
  from a b c d e norm given box_examples show ?thesis by blast
qed

section \<open>The invariant of the boxes handed to the filter stages\<close>

lemma parseBox_normalized:
  assumes "parseBox data = Some bb"
  shows "normalized_box bb"
proof -
  from assms obtain y0 x0 y1 x1 nb where
    nb: "normalizeBox y0 x0 y1 x1 = Some nb" and v: "validateBox nb = Some bb"
    unfolding parseBox_def
    by (auto split: option.splits json.splits list.splits)
  from v have "bb = nb" by (rule validateBox_Some)
  with nb show ?thesis by (simp add: normalizeBox_normalized)
qed

lemma forensic_parseBox_unit:
  assumes "forensic_parseBox data = Some bb"
  shows "0 \<le> ymin bb \<and> ymin bb \<le> 1 \<and> 0 \<le> xmin bb \<and> xmin bb \<le> 1
         \<and> 0 \<le> ymax bb \<and> ymax bb \<le> 1 \<and> 0 \<le> xmax bb \<and> xmax bb \<le> 1"
  using assms unfolding forensic_parseBox_def
  by (auto split: option.splits json.splits list.splits)

text \<open>
  C7 fails on the forensic path. The property path keeps the invariant
  (\<open>parseBox_normalized\<close>), but \<^const>\<open>forensic_parseBox\<close> only clamps: the evidence
  payload with \<^verbatim>\<open>box_2d = [0.5, 0.5, 0.2, 0.2]\<close> and confidence 90 reaches the duplicate
  check, the recent list and the recorded evidence with a box whose minima are above its
  maxima.
\<close>

theorem forensic_box_breaks_invariant:
  "forensic_parseBox (evidence_payload (Some (JNum 90)) (box_array 0.5 0.5 0.2 0.2))
     = Some box_inverted
   \<and> \<not> normalized_box box_inverted
   \<and> \<not> ymin box_inverted < ymax box_inverted
   \<and> handleEvidenceDetection 1000 empty_forensic_client ''blood stain''
        (evidence_payload (Some (JNum 90)) (box_array 0.5 0.5 0.2 0.2))
      = (EvidenceRecorded \<lparr> e_evidenceType = ''blood stain'', e_confidence = 90,
                             e_boundingBox = Some box_inverted \<rparr>,
         \<lparr> session = Some [\<lparr> e_evidenceType = ''blood stain'', e_confidence = 90,
                              e_boundingBox = Some box_inverted \<rparr>],
           f_recentDetections = [\<lparr> f_evidenceType = ''blood stain'', f_bbox = Some box_inverted,
                                   f_timestamp = 1000 \<rparr>] \<rparr>)"
proof -
  define data where "data = evidence_payload (Some (JNum 90)) (box_array 0.5 0.5 0.2 0.2)"
  have box: "forensic_parseBox data = Some box_inverted"
    by (simp add: data_def forensic_parseBox_def evidence_payload_def box_array_def
        box_inverted_def)
  have conf: "forensic_confidence data = 90"
    by (simp add: data_def forensic_confidence_def evidence_payload_def Let_def)
  have inv: "\<not> normalized_box box_inverted" "\<not> ymin box_inverted < ymax box_inverted"
    by (simp_all add: normalized_box_def box_inverted_def)
  have run: "handleEvidenceDetection 1000 empty_forensic_client ''blood stain'' data
      = (EvidenceRecorded \<lparr> e_evidenceType = ''blood stain'', e_confidence = 90,
                             e_boundingBox = Some box_inverted \<rparr>,
         \<lparr> session = Some [\<lparr> e_evidenceType = ''blood stain'', e_confidence = 90,
                              e_boundingBox = Some box_inverted \<rparr>],
           f_recentDetections = [\<lparr> f_evidenceType = ''blood stain'', f_bbox = Some box_inverted,
                                   f_timestamp = 1000 \<rparr>] \<rparr>)"
    by (simp add: handleEvidenceDetection_def box conf empty_forensic_client_def
        forensic_isDuplicate_def forensic_trackDetection_def
        FORENSIC_MIN_CONFIDENCE_THRESHOLD_def Let_def)
  from box inv run show ?thesis unfolding data_def by blast
qed

section \<open>Confidence: default, clamp and threshold\<close>

lemma parse_confidence_default:
  "(\<forall>c. data ''confidence'' \<noteq> Some (JNum c)) \<Longrightarrow> parse_confidence data = 70"
  by (auto simp: parse_confidence_def Let_def split: option.splits json.splits)

lemma forensic_confidence_default:
  "(\<forall>c. data ''confidence'' \<noteq> Some (JNum c)) \<Longrightarrow> forensic_confidence data = 70"
  by (auto simp: forensic_confidence_def Let_def split: option.splits json.splits)

lemma parse_confidence_range: "0 \<le> parse_confidence data \<and> parse_confidence data \<le> 100"
  by (simp add: parse_confidence_def Let_def)

lemma forensic_confidence_range:
  "0 \<le> forensic_confidence data \<and> forensic_confidence data \<le> 100"
  by (simp add: forensic_confidence_def Let_def)

lemma low_confidence_not_detected:
  assumes "parse_confidence data < 60"
  shows "fst (parseDefectResponse now st data) \<in> {Thrown, ClearFrame, InvalidType, FilteredLowConfidence}"
  using assms
  by (simp add: parseDefectResponse_def MIN_CONFIDENCE_THRESHOLD_def Let_def
      split: option.splits json.splits)

lemma forensic_low_confidence_not_recorded:
  assumes "forensic_confidence data < 70"
  shows "fst (handleEvidenceDetection now fs ty data) \<in> {NoSession, ForensicFilteredLowConfidence}"
  using assms
  by (simp add: handleEvidenceDetection_def FORENSIC_MIN_CONFIDENCE_THRESHOLD_def Let_def
      split: option.splits)

text \<open>
  C5 fails on the code. The default 70 is given to a payload without a number in its
  confidence field, the confidence is clamped and a confidence below the threshold is
  filtered (the lemmas above), but 70 is not below the threshold of either profile (60
  and 70): the defect payload and the evidence payload without a confidence field are
  reported, with confidence 70.
\<close>

theorem default_confidence_is_reported:
  "parse_confidence (defect_payload None None) = 70
   \<and> parse_confidence (defect_payload (Some (JStr ''high'')) None) = 70
   \<and> \<not> parse_confidence (defect_payload None None) < MIN_CONFIDENCE_THRESHOLD
   \<and> fst (parseDefectResponse 1000 empty_client (defect_payload None None))
       = Detected ''crack'' None 70
   \<and> forensic_confidence (evidence_payload None None) = 70
   \<and> \<not> forensic_confidence (evidence_payload None None) < FORENSIC_MIN_CONFIDENCE_THRESHOLD
   \<and> fst (handleEvidenceDetection 1000 empty_forensic_client ''blood stain''
            (evidence_payload None None))
       = EvidenceRecorded \<lparr> e_evidenceType = ''blood stain'', e_confidence = 70,
                            e_boundingBox = None \<rparr>"
proof -
  have c1: "parse_confidence (defect_payload None None) = 70"
    "parse_confidence (defect_payload (Some (JStr ''high'')) None) = 70"
    by (simp_all add: parse_confidence_def defect_payload_def Let_def)
  have c2: "forensic_confidence (evidence_payload None None) = 70"
    by (simp add: forensic_confidence_def evidence_payload_def Let_def)
  have box1: "parseBox (defect_payload None None) = None"
    by (simp add: parseBox_def defect_payload_def)
  have box2: "forensic_parseBox (evidence_payload None None) = None"
    by (simp add: forensic_parseBox_def evidence_payload_def)
  have fields: "defect_payload None None ''box_2d'' = None"
    "defect_payload None None ''type'' = Some (JStr ''defect'')"
    "defect_payload None None ''defectType'' = Some (JStr ''crack'')"
    by (simp_all add: defect_payload_def)
  have run1: "fst (parseDefectResponse 1000 empty_client (defect_payload None None))
       = Detected ''crack'' None 70"
    by (simp add: parseDefectResponse_def fields c1 box1 js_or_def isDuplicate_def
        empty_client_def MIN_CONFIDENCE_THRESHOLD_def Let_def)
  have run2: "fst (handleEvidenceDetection 1000 empty_forensic_client ''blood stain''
            (evidence_payload None None))
       = EvidenceRecorded \<lparr> e_evidenceType = ''blood stain'', e_confidence = 70,
                            e_boundingBox = None \<rparr>"
    by (simp add: handleEvidenceDetection_def c2 box2 empty_forensic_client_def
        forensic_isDuplicate_def forensic_trackDetection_def
        FORENSIC_MIN_CONFIDENCE_THRESHOLD_def Let_def)
  from c1 c2 run1 run2 show ?thesis
    by (simp add: MIN_CONFIDENCE_THRESHOLD_def FORENSIC_MIN_CONFIDENCE_THRESHOLD_def)
qed

section \<open>Stopping a session\<close>

lemma stop_empty: "stop st = empty_client"
  by (simp add: stop_def empty_client_def)

lemma empty_client_first_sighting:
  "fst (checkTemporalConsistency_at th now empty_client ty bb c) = (th \<le> 1, 1)"
  by (simp add: checkTemporalConsistency_at_def temporal_clean_def empty_client_def Let_def)

lemma parseDefectResponse_crack:
  "parseDefectResponse now empty_client
     (defect_payload (Some (JNum 85)) (box_array 200 150 450 180)) =
   (Detected ''crack'' (Some box_crack) 85,
    \<lparr> recentDetections =
        [\<lparr> r_defectType = ''crack'', r_bbox = Some box_crack, r_timestamp = now \<rparr>],
      temporalBuffer =
        [(generateSpatialKey ''crack'' box_crack, first_sighting now ''crack'' box_crack 85)],
      confirmedDetections =
        [\<lparr> c_defectType = ''crack'', c_bbox = box_crack, c_confidence = 85,
           c_timestamp = now \<rparr>] \<rparr>)"
proof -
  define data where "data = defect_payload (Some (JNum 85)) (box_array 200 150 450 180)"
  have fields: "data ''box_2d'' = box_array 200 150 450 180"
    "data ''type'' = Some (JStr ''defect'')" "data ''defectType'' = Some (JStr ''crack'')"
    by (simp_all add: data_def defect_payload_def)
  have arr: "isArray (box_array 200 150 450 180)" by (simp add: box_array_def)
  have conf: "parse_confidence data = 85"
    by (simp add: data_def parse_confidence_def defect_payload_def Let_def)
  have box: "parseBox data = Some box_crack"
    unfolding data_def box_crack_def by (rule parseBox_example)
  have dup: "isDuplicate now
        \<lparr> recentDetections = [], temporalBuffer = [], confirmedDetections = [] \<rparr>
        ''crack'' (Some box_crack)
      = (False, \<lparr> recentDetections = [], temporalBuffer = [], confirmedDetections = [] \<rparr>)"
    by (simp add: isDuplicate_def Let_def)
  have temporal: "checkTemporalConsistency now
        \<lparr> recentDetections = [], temporalBuffer = [], confirmedDetections = [] \<rparr>
        ''crack'' box_crack 85 =
      ((True, 1),
       \<lparr> recentDetections = [],
         temporalBuffer =
           [(generateSpatialKey ''crack'' box_crack, first_sighting now ''crack'' box_crack 85)],
         confirmedDetections = [] \<rparr>)"
    by (simp add: checkTemporalConsistency_def checkTemporalConsistency_at_def
        TEMPORAL_THRESHOLD_def temporal_clean_def first_sighting_def Let_def)
  have nms: "shouldSuppressNMS now
        \<lparr> recentDetections = [], temporalBuffer = buf, confirmedDetections = [] \<rparr>
        ''crack'' box_crack 85
      = (False, \<lparr> recentDetections = [], temporalBuffer = buf, confirmedDetections = [] \<rparr>)"
    for buf
    by (simp add: shouldSuppressNMS_def Let_def)
  show ?thesis
    unfolding data_def [symmetric] empty_client_def
    by (simp add: parseDefectResponse_def fields arr conf box dup temporal nms js_or_def
        MIN_CONFIDENCE_THRESHOLD_def trackDetection_def trackConfirmedDetection_def Let_def)
qed

lemma parseDefectResponse_crack_again:
  assumes "recentDetections st =
      [\<lparr> r_defectType = ''crack'', r_bbox = Some box_crack, r_timestamp = t0 \<rparr>]"
    and "now - t0 < 30000"
  shows "fst (parseDefectResponse now st
           (defect_payload (Some (JNum 85)) (box_array 200 150 450 180))) = FilteredDuplicate"
proof -
  define data where "data = defect_payload (Some (JNum 85)) (box_array 200 150 450 180)"
  have fields: "data ''box_2d'' = box_array 200 150 450 180"
    "data ''type'' = Some (JStr ''defect'')" "data ''defectType'' = Some (JStr ''crack'')"
    by (simp_all add: data_def defect_payload_def)
  have arr: "isArray (box_array 200 150 450 180)" by (simp add: box_array_def)
  have conf: "parse_confidence data = 85"
    by (simp add: data_def parse_confidence_def defect_payload_def Let_def)
  have box: "parseBox data = Some box_crack"
    unfolding data_def box_crack_def by (rule parseBox_example)
  have dup: "fst (isDuplicate now st ''crack'' (Some box_crack))"
    using assms by (simp add: isDuplicate_result center_distance_self)
  show ?thesis
    unfolding data_def [symmetric] using dup
    by (simp add: parseDefectResponse_def fields arr conf box js_or_def
        MIN_CONFIDENCE_THRESHOLD_def Let_def split_def)
qed

text \<open>
  C9. \<^const>\<open>stop\<close> leaves the three collections empty, so the stopped client is the
  client of a fresh session: no detection is a duplicate, a temporal check is a first
  sighting (frame count 1) and nothing is suppressed, whatever was tracked before, and a
  message is handled as by a fresh client. The forensic client has one rolling
  collection, the recent list; its stop empties it and no detection is a duplicate
  afterwards.
\<close>

theorem stop_clears_state:
  "recentDetections (stop st) = [] \<and> temporalBuffer (stop st) = []
   \<and> confirmedDetections (stop st) = []
   \<and> \<not> fst (isDuplicate now (stop st) ty b)
   \<and> fst (checkTemporalConsistency_at th now (stop st) ty bb c) = (th \<le> 1, 1)
   \<and> \<not> fst (shouldSuppressNMS now (stop st) ty bb c)
   \<and> parseDefectResponse now (stop st) data = parseDefectResponse now empty_client data
   \<and> f_recentDetections (forensic_stop fs) = []
   \<and> \<not> fst (forensic_isDuplicate now (forensic_stop fs) ty b)"
proof -
  have "\<not> fst (isDuplicate now (stop st) ty b)"
    by (simp add: isDuplicate_def stop_def Let_def)
  moreover have "fst (checkTemporalConsistency_at th now (stop st) ty bb c) = (th \<le> 1, 1)"
    by (simp only: stop_empty empty_client_first_sighting)
  moreover have "\<not> fst (shouldSuppressNMS now (stop st) ty bb c)"
    by (simp add: shouldSuppressNMS_def stop_def Let_def)
  moreover have "\<not> fst (forensic_isDuplicate now (forensic_stop fs) ty b)"
    by (simp add: forensic_isDuplicate_def forensic_stop_def Let_def)
  ultimately show ?thesis
    by (simp add: stop_empty empty_client_def forensic_stop_def)
qed

text \<open>
  The crack of the specification's example, detected at 1000 ms, is a duplicate at
  1250 ms in the same session and is detected again at 1250 ms after a stop.
\<close>

theorem stop_clears_state_witness:
  "fst (parseDefectResponse 1000 empty_client
          (defect_payload (Some (JNum 85)) (box_array 200 150 450 180)))
     = Detected ''crack'' (Some box_crack) 85
   \<and> fst (parseDefectResponse 1250
            (snd (parseDefectResponse 1000 empty_client
                    (defect_payload (Some (JNum 85)) (box_array 200 150 450 180))))
            (defect_payload (Some (JNum 85)) (box_array 200 150 450 180)))
     = FilteredDuplicate
   \<and> fst (parseDefectResponse 1250
            (stop (snd (parseDefectResponse 1000 empty_client
                          (defect_payload (Some (JNum 85)) (box_array 200 150 450 180)))))
            (defect_payload (Some (JNum 85)) (box_array 200 150 450 180)))
     = Detected ''crack'' (Some box_crack) 85"
proof -
  let ?data = "defect_payload (Some (JNum 85)) (box_array 200 150 450 180)"
  let ?st = "snd (parseDefectResponse 1000 empty_client ?data)"
  have first: "fst (parseDefectResponse 1000 empty_client ?data)
      = Detected ''crack'' (Some box_crack) 85"
    by (simp only: parseDefectResponse_crack fst_conv)
  have "recentDetections ?st =
      [\<lparr> r_defectType = ''crack'', r_bbox = Some box_crack, r_timestamp = 1000 \<rparr>]"
    by (simp only: parseDefectResponse_crack snd_conv client.simps)
  then have second: "fst (parseDefectResponse 1250 ?st ?data) = FilteredDuplicate"
    by (rule parseDefectResponse_crack_again) simp
  have "parseDefectResponse 1250 (stop ?st) ?data = parseDefectResponse 1250 empty_client ?data"
    using stop_clears_state [of ?st 1250 "''crack''" None 1 box_crack 85 ?data empty_forensic_client]
    by blast
  then have third: "fst (parseDefectResponse 1250 (stop ?st) ?data)
      = Detected ''crack'' (Some box_crack) 85"
    by (simp only: parseDefectResponse_crack fst_conv)
  from first second third show ?thesis by blast
qed

end
